theory Spec2Isabelle
  imports Main
begin

section \<open>Python values, exceptions and outcomes\<close>

text \<open>
  The bot handles the catalog's answers as the objects that \<open>r.json()\<close> returns: \<open>None\<close>,
  \<open>bool\<close>, \<open>int\<close>, \<open>float\<close>, \<open>str\<close>, \<open>list\<close> and \<open>dict\<close> with \<open>str\<close> keys. A \<open>str\<close> is a
  \<open>string\<close>; a \<open>dict\<close> is the list of its items in insertion order, read by its first entry
  for a key (a Python dict holds one entry for a key). \<open>JFloat m e\<close> stands for the float
  \<open>m * 2^e\<close>: the code never computes with floats, it stores them and hands them back.
\<close>

datatype json =
    JNull
  | JBool bool
  | JInt int
  | JFloat int int
  | JStr string
  | JList "json list"
  | JObj "(string \<times> json) list"

text \<open>
  The exception classes that matter. \<open>RequestError\<close> is
  \<open>requests.exceptions.RequestException\<close> with its subclasses, the only class the catalog
  client catches; \<open>ForeignError\<close> is any exception of a library that is none of the others;
  \<open>BindError\<close> is raised by \<open>sqlite3\<close> for a parameter of an unsupported type,
  \<open>IntegrityError\<close> for a violated \<open>CHECK\<close>.
\<close>

datatype exn =
    RequestError
  | AttributeError
  | KeyError
  | TypeError
  | ValueError
  | IndexError
  | OverflowError
  | BindError
  | IntegrityError
  | ForeignError

text \<open>
  A call returns a value or raises. \<open>Unmodelled\<close> marks the places where the run leaves
  what is modelled here (a conversion made by the SQLite engine between storage classes, the
  rendering of a float as text, the body of a handler that only renders): nothing is claimed
  about what the code does from there on.
\<close>

datatype 'a outcome = Ret 'a | Raise exn | Unmodelled

definition obind :: "'a outcome \<Rightarrow> ('a \<Rightarrow> 'b outcome) \<Rightarrow> 'b outcome" where
  "obind m f = (case m of Ret x \<Rightarrow> f x | Raise e \<Rightarrow> Raise e | Unmodelled \<Rightarrow> Unmodelled)"

text \<open>Sequencing of calls that change a state: a raise keeps the state reached so far.\<close>

definition sbind ::
  "('s \<Rightarrow> 'a outcome \<times> 's) \<Rightarrow> ('a \<Rightarrow> 's \<Rightarrow> 'b outcome \<times> 's) \<Rightarrow> 's \<Rightarrow> 'b outcome \<times> 's" where
  "sbind m f s =
     (case m s of
        (Ret x, s') \<Rightarrow> f x s'
      | (Raise e, s') \<Rightarrow> (Raise e, s')
      | (Unmodelled, s') \<Rightarrow> (Unmodelled, s'))"

definition lift :: "'a outcome \<Rightarrow> 's \<Rightarrow> 'a outcome \<times> 's" where
  "lift m s = (m, s)"

text \<open>Truth value of an object, as \<open>if x:\<close> and \<open>x or y\<close> test it.\<close>

fun truthy :: "json \<Rightarrow> bool" where
  "truthy JNull = False"
| "truthy (JBool b) = b"
| "truthy (JInt n) = (n \<noteq> 0)"
| "truthy (JFloat m e) = (m \<noteq> 0)"
| "truthy (JStr s) = (s \<noteq> [])"
| "truthy (JList xs) = (xs \<noteq> [])"
| "truthy (JObj kvs) = (kvs \<noteq> [])"

definition py_or :: "json \<Rightarrow> json \<Rightarrow> json" where
  "py_or x y = (if truthy x then x else y)"

text \<open>\<open>x.get(key, default)\<close>: only a dict has the method.\<close>

fun py_get_d :: "json \<Rightarrow> string \<Rightarrow> json \<Rightarrow> json outcome" where
  "py_get_d (JObj kvs) k d = Ret (case map_of kvs k of Some v \<Rightarrow> v | None \<Rightarrow> d)"
| "py_get_d _ k d = Raise AttributeError"

definition py_get :: "json \<Rightarrow> string \<Rightarrow> json outcome" where
  "py_get x k = py_get_d x k JNull"

text \<open>
  \<open>x[key]\<close> with a \<open>str\<close> key: a dict raises \<open>KeyError\<close> for a missing key, every other
  object raises \<open>TypeError\<close> (a list or a string wants an integer index, the others are not
  subscriptable).
\<close>

fun py_item :: "json \<Rightarrow> string \<Rightarrow> json outcome" where
  "py_item (JObj kvs) k = (case map_of kvs k of Some v \<Rightarrow> Ret v | None \<Rightarrow> Raise KeyError)"
| "py_item _ k = Raise TypeError"

text \<open>
  \<open>for x in v\<close>: a list yields its elements, a dict its keys, a string its characters;
  nothing else is iterable.
\<close>

fun py_iter :: "json \<Rightarrow> json list outcome" where
  "py_iter (JList xs) = Ret xs"
| "py_iter (JObj kvs) = Ret (map (\<lambda>kv. JStr (fst kv)) kvs)"
| "py_iter (JStr s) = Ret (map (\<lambda>c. JStr [c]) s)"
| "py_iter _ = Raise TypeError"

text \<open>\<open>key in x\<close> for a dict \<open>x\<close>. The code applies it to dicts only.\<close>

fun py_has_key :: "json \<Rightarrow> string \<Rightarrow> bool outcome" where
  "py_has_key (JObj kvs) k = Ret (k \<in> set (map fst kvs))"
| "py_has_key _ k = Unmodelled"

text \<open>
  An object as a member of a \<open>set\<close> or a key of a \<open>dict\<close>: lists and dicts are unhashable.
  Strings are modelled; the numbers, \<open>None\<close> and the booleans are left out, since Python
  identifies \<open>1\<close>, \<open>1.0\<close> and \<open>True\<close> as keys.
\<close>

fun py_hashable_str :: "json \<Rightarrow> string outcome" where
  "py_hashable_str (JStr s) = Ret s"
| "py_hashable_str (JList xs) = Raise TypeError"
| "py_hashable_str (JObj kvs) = Raise TypeError"
| "py_hashable_str _ = Unmodelled"

text \<open>Decimal rendering of an \<open>int\<close>, as \<open>str(n)\<close> and an f-string produce it.\<close>

definition digit_char :: "nat \<Rightarrow> char" where
  "digit_char d = char_of (48 + d)"

fun show_nat :: "nat \<Rightarrow> string" where
  "show_nat n = (if n < 10 then [digit_char n] else show_nat (n div 10) @ [digit_char (n mod 10)])"

definition show_int :: "int \<Rightarrow> string" where
  "show_int i = (if i < 0 then CHR ''-'' # show_nat (nat (- i)) else show_nat (nat i))"

text \<open>
  \<open>int(s)\<close> in base ten: white space around the number is dropped, one sign is allowed,
  then at least one digit and nothing else. The strings given to it here are parts of
  \<open>split('_')\<close>, so the underscores that \<open>int\<close> accepts between digits cannot occur. A
  character above 127 may be a digit or a space of another script: such a string is left
  unmodelled.
\<close>

definition is_digit :: "char \<Rightarrow> bool" where
  "is_digit c = (48 \<le> (of_char c :: nat) \<and> (of_char c :: nat) \<le> 57)"

definition is_py_space :: "char \<Rightarrow> bool" where
  "is_py_space c = (let n = (of_char c :: nat) in (9 \<le> n \<and> n \<le> 13) \<or> (28 \<le> n \<and> n \<le> 32))"

fun digits_val :: "nat \<Rightarrow> string \<Rightarrow> nat" where
  "digits_val acc [] = acc"
| "digits_val acc (c # cs) = digits_val (10 * acc + ((of_char c :: nat) - 48)) cs"

definition strip_space :: "string \<Rightarrow> string" where
  "strip_space s = rev (dropWhile is_py_space (rev (dropWhile is_py_space s)))"

definition parse_digits :: "string \<Rightarrow> nat outcome" where
  "parse_digits s = (if s \<noteq> [] \<and> list_all is_digit s then Ret (digits_val 0 s) else Raise ValueError)"

definition py_int :: "string \<Rightarrow> int outcome" where
  "py_int s =
     (if list_ex (\<lambda>c. 128 \<le> (of_char c :: nat)) s then Unmodelled
      else case strip_space s of
          [] \<Rightarrow> Raise ValueError
        | c # cs \<Rightarrow>
            if c = CHR ''-'' then obind (parse_digits cs) (\<lambda>n. Ret (- int n))
            else if c = CHR ''+'' then obind (parse_digits cs) (\<lambda>n. Ret (int n))
            else obind (parse_digits (c # cs)) (\<lambda>n. Ret (int n)))"

text \<open>\<open>s.startswith(p)\<close>, \<open>s.split('_')\<close> and \<open>'_'.join(parts)\<close>.\<close>

fun startswith :: "string \<Rightarrow> string \<Rightarrow> bool" where
  "startswith s [] = True"
| "startswith [] (p # ps) = False"
| "startswith (c # cs) (p # ps) = (c = p \<and> startswith cs ps)"

fun split_us :: "string \<Rightarrow> string \<Rightarrow> string list" where
  "split_us cur [] = [rev cur]"
| "split_us cur (c # cs) =
     (if c = CHR ''_'' then rev cur # split_us [] cs else split_us (c # cur) cs)"

definition py_split :: "string \<Rightarrow> string list" where
  "py_split s = split_us [] s"

fun join_us :: "string list \<Rightarrow> string" where
  "join_us [] = []"
| "join_us [p] = p"
| "join_us (p # q # ps) = p @ CHR ''_'' # join_us (q # ps)"

text \<open>
  \<open>xs[i]\<close> with an integer index: a negative index counts from the end, an index out of
  range raises \<open>IndexError\<close>.
\<close>

definition py_index :: "'a list \<Rightarrow> int \<Rightarrow> 'a outcome" where
  "py_index xs i =
     (if 0 \<le> i \<and> i < int (length xs) then Ret (xs ! nat i)
      else if i < 0 \<and> - int (length xs) \<le> i then Ret (xs ! nat (int (length xs) + i))
      else Raise IndexError)"

text \<open>The range of SQLite's 64-bit integers: \<open>sqlite3\<close> raises \<open>OverflowError\<close> outside it.\<close>

definition int64_ok :: "int \<Rightarrow> bool" where
  "int64_ok n = (- 9223372036854775808 \<le> n \<and> n \<le> 9223372036854775807)"

definition bind_id :: "int \<Rightarrow> unit outcome" where
  "bind_id n = (if int64_ok n then Ret () else Raise OverflowError)"

declare show_nat.simps [simp del]

section \<open>The Entity Store\<close>

text \<open>
  One record field for each table that an accessor of \<open>AnimeDatabase\<close> reads or writes; a
  table is the list of its rows in insertion order, keyed by its primary key. The tables of
  the custom lists are left out: no handler calls their accessors. \<open>CURRENT_TIMESTAMP\<close> is
  the clock value \<open>now\<close> that the caller passes.
\<close>

record user_row =
  u_username :: "string option"
  u_first_name :: "string option"
  u_last_name :: "string option"
  u_language_code :: "string option"
  u_created_at :: nat

record watch_row =
  w_status :: string
  w_score :: "int option"
  w_progress :: int
  w_added_at :: nat
  w_updated_at :: nat

record ach_row =
  a_id :: nat
  a_user :: int
  a_type :: string
  a_name :: string
  a_achieved_at :: nat

text \<open>
  A row of \<open>anime_cache\<close>, one field for each column after the key, with the type of the
  column's declared storage class. The columns \<open>genres\<close>, \<open>studios\<close> and \<open>producers\<close> hold
  the text \<open>json.dumps(names)\<close>; the field holds \<open>names\<close>, which \<open>json.loads\<close> gives back.
\<close>

record anime_row =
  c_title :: "string option"
  c_title_japanese :: "string option"
  c_title_english :: "string option"
  c_image_url :: "string option"
  c_synopsis :: "string option"
  c_score :: "(int \<times> int) option"
  c_episodes :: "int option"
  c_status :: "string option"
  c_year :: "int option"
  c_genres :: "json list"
  c_studios :: "json list"
  c_producers :: "json list"
  c_duration :: "string option"
  c_rating :: "string option"
  c_source :: "string option"
  c_cached_at :: nat

record char_row =
  h_name :: "string option"
  h_name_kanji :: "string option"
  h_about :: "string option"
  h_image_url :: "string option"
  h_favorites :: "int option"
  h_animeography :: json
  h_voice_actors :: json
  h_cached_at :: nat

record db =
  t_users :: "(int \<times> user_row) list"
  t_favorites :: "((int \<times> int) \<times> nat) list"
  t_watchlists :: "((int \<times> int) \<times> watch_row) list"
  t_achievements :: "ach_row list"
  t_anime_cache :: "(int \<times> anime_row) list"
  t_character_cache :: "(int \<times> char_row) list"

text \<open>
  \<open>INSERT OR REPLACE\<close>: a row with the same primary key is deleted, then the new row is
  inserted; the columns the statement does not name take their defaults.
\<close>

definition insert_or_replace :: "'k \<Rightarrow> 'v \<Rightarrow> ('k \<times> 'v) list \<Rightarrow> ('k \<times> 'v) list" where
  "insert_or_replace k v tbl = filter (\<lambda>kv. fst kv \<noteq> k) tbl @ [(k, v)]"

text \<open>\<open>INSERT OR IGNORE\<close>: nothing happens when the key is there.\<close>

definition insert_or_ignore :: "'k \<Rightarrow> 'v \<Rightarrow> ('k \<times> 'v) list \<Rightarrow> ('k \<times> 'v) list" where
  "insert_or_ignore k v tbl = (if k \<in> set (map fst tbl) then tbl else tbl @ [(k, v)])"

text \<open>
  \<open>ORDER BY t DESC\<close>: rows of equal time stay in table order (SQL leaves their order open).
\<close>

definition order_desc :: "('a \<Rightarrow> nat) \<Rightarrow> 'a list \<Rightarrow> 'a list" where
  "order_desc t rows = sort_key (\<lambda>r. - int (t r)) rows"

subsection \<open>Users and favorites\<close>

record tg_user =
  tg_id :: int
  tg_username :: "string option"
  tg_first_name :: "string option"
  tg_last_name :: "string option"
  tg_language_code :: "string option"

definition add_user :: "nat \<Rightarrow> tg_user \<Rightarrow> db \<Rightarrow> unit outcome \<times> db" where
  "add_user now u d =
     (if \<not> int64_ok (tg_id u) then (Raise OverflowError, d)
      else (Ret (), d\<lparr>t_users := insert_or_ignore (tg_id u)
              \<lparr>u_username = tg_username u, u_first_name = tg_first_name u,
               u_last_name = tg_last_name u, u_language_code = tg_language_code u,
               u_created_at = now\<rparr> (t_users d)\<rparr>))"

definition add_to_favorites :: "nat \<Rightarrow> int \<Rightarrow> int \<Rightarrow> db \<Rightarrow> unit outcome \<times> db" where
  "add_to_favorites now user_id anime_id d =
     (if \<not> int64_ok user_id \<or> \<not> int64_ok anime_id then (Raise OverflowError, d)
      else (Ret (), d\<lparr>t_favorites := insert_or_replace (user_id, anime_id) now (t_favorites d)\<rparr>))"

definition remove_from_favorites :: "int \<Rightarrow> int \<Rightarrow> db \<Rightarrow> unit outcome \<times> db" where
  "remove_from_favorites user_id anime_id d =
     (if \<not> int64_ok user_id \<or> \<not> int64_ok anime_id then (Raise OverflowError, d)
      else (Ret (), d\<lparr>t_favorites := filter (\<lambda>kv. fst kv \<noteq> (user_id, anime_id)) (t_favorites d)\<rparr>))"

definition get_favorites :: "int \<Rightarrow> db \<Rightarrow> int list outcome" where
  "get_favorites user_id d =
     (if \<not> int64_ok user_id then Raise OverflowError
      else Ret (map (\<lambda>kv. snd (fst kv))
             (order_desc snd (filter (\<lambda>kv. fst (fst kv) = user_id) (t_favorites d)))))"

definition is_favorite :: "int \<Rightarrow> int \<Rightarrow> db \<Rightarrow> bool outcome" where
  "is_favorite user_id anime_id d =
     (if \<not> int64_ok user_id \<or> \<not> int64_ok anime_id then Raise OverflowError
      else Ret ((user_id, anime_id) \<in> set (map fst (t_favorites d))))"

subsection \<open>Watch records\<close>

text \<open>The two \<open>CHECK\<close> constraints of the table \<open>watchlists\<close>.\<close>

definition status_ok :: "string \<Rightarrow> bool" where
  "status_ok s = (s = ''plan_to_watch'' \<or> s = ''watching'' \<or> s = ''completed'' \<or> s = ''dropped'')"

definition score_ok :: "int option \<Rightarrow> bool" where
  "score_ok sc = (case sc of None \<Rightarrow> True | Some n \<Rightarrow> 0 \<le> n \<and> n \<le> 10)"

text \<open>
  \<open>update_watchlist\<close>: each of its four branches is an \<open>INSERT OR REPLACE\<close> that names, besides
  the key, the status and the time of update, the score and the progress that were given. The
  row is replaced as a whole: a column that the branch does not name takes its default,
  \<open>NULL\<close> for the score, \<open>0\<close> for the progress, the current time for \<open>added_at\<close>.
\<close>

definition update_watchlist ::
  "nat \<Rightarrow> int \<Rightarrow> int \<Rightarrow> string \<Rightarrow> int option \<Rightarrow> int option \<Rightarrow> db \<Rightarrow> unit outcome \<times> db" where
  "update_watchlist now user_id anime_id status score progress d =
     (if \<not> int64_ok user_id \<or> \<not> int64_ok anime_id then (Raise OverflowError, d)
      else if (case score of Some n \<Rightarrow> \<not> int64_ok n | None \<Rightarrow> False) then (Raise OverflowError, d)
      else if (case progress of Some n \<Rightarrow> \<not> int64_ok n | None \<Rightarrow> False) then (Raise OverflowError, d)
      else if \<not> status_ok status \<or> \<not> score_ok score then (Raise IntegrityError, d)
      else
        let row =
          (case (score, progress) of
             (Some sc, Some p) \<Rightarrow>
               \<lparr>w_status = status, w_score = Some sc, w_progress = p,
                w_added_at = now, w_updated_at = now\<rparr>
           | (Some sc, None) \<Rightarrow>
               \<lparr>w_status = status, w_score = Some sc, w_progress = 0,
                w_added_at = now, w_updated_at = now\<rparr>
           | (None, Some p) \<Rightarrow>
               \<lparr>w_status = status, w_score = None, w_progress = p,
                w_added_at = now, w_updated_at = now\<rparr>
           | (None, None) \<Rightarrow>
               \<lparr>w_status = status, w_score = None, w_progress = 0,
                w_added_at = now, w_updated_at = now\<rparr>)
        in (Ret (), d\<lparr>t_watchlists := insert_or_replace (user_id, anime_id) row (t_watchlists d)\<rparr>))"

record watch_item =
  wi_anime_id :: int
  wi_status :: string
  wi_score :: "int option"
  wi_progress :: int

text \<open>\<open>get_watchlist(user_id, status)\<close>: an empty or absent status selects every row.\<close>

definition get_watchlist :: "int \<Rightarrow> string option \<Rightarrow> db \<Rightarrow> watch_item list outcome" where
  "get_watchlist user_id status d =
     (if \<not> int64_ok user_id then Raise OverflowError
      else
        let mine = filter (\<lambda>kv. fst (fst kv) = user_id) (t_watchlists d);
            sel = (case status of
                     None \<Rightarrow> mine
                   | Some s \<Rightarrow> if s = [] then mine else filter (\<lambda>kv. w_status (snd kv) = s) mine)
        in Ret (map (\<lambda>kv. \<lparr>wi_anime_id = snd (fst kv), wi_status = w_status (snd kv),
                           wi_score = w_score (snd kv), wi_progress = w_progress (snd kv)\<rparr>)
                  (order_desc (\<lambda>kv. w_updated_at (snd kv)) sel)))"

definition get_watch_status :: "int \<Rightarrow> int \<Rightarrow> db \<Rightarrow> watch_row option outcome" where
  "get_watch_status user_id anime_id d =
     (if \<not> int64_ok user_id \<or> \<not> int64_ok anime_id then Raise OverflowError
      else Ret (map_of (t_watchlists d) (user_id, anime_id)))"

subsection \<open>Achievements\<close>

text \<open>
  \<open>add_achievement\<close> counts the rows of the user with the given type and inserts only when
  there is none; it returns whether it inserted. The key \<open>achievement_id\<close> is
  \<open>AUTOINCREMENT\<close>: one more than the largest key so far (no accessor deletes a row).
\<close>

definition ach_count :: "int \<Rightarrow> string \<Rightarrow> db \<Rightarrow> nat" where
  "ach_count user_id ty d =
     length (filter (\<lambda>r. a_user r = user_id \<and> a_type r = ty) (t_achievements d))"

definition next_ach_id :: "db \<Rightarrow> nat" where
  "next_ach_id d = Suc (fold max (map a_id (t_achievements d)) 0)"

definition add_achievement :: "nat \<Rightarrow> int \<Rightarrow> string \<Rightarrow> string \<Rightarrow> db \<Rightarrow> bool outcome \<times> db" where
  "add_achievement now user_id ty name d =
     (if \<not> int64_ok user_id then (Raise OverflowError, d)
      else if ach_count user_id ty d = 0 then
        (Ret True, d\<lparr>t_achievements := t_achievements d @
           [\<lparr>a_id = next_ach_id d, a_user = user_id, a_type = ty, a_name = name,
             a_achieved_at = now\<rparr>]\<rparr>)
      else (Ret False, d))"

definition get_achievements :: "int \<Rightarrow> db \<Rightarrow> ach_row list outcome" where
  "get_achievements user_id d =
     (if \<not> int64_ok user_id then Raise OverflowError
      else Ret (order_desc a_achieved_at (filter (\<lambda>r. a_user r = user_id) (t_achievements d))))"

definition empty_db :: db where
  "empty_db = \<lparr>t_users = [], t_favorites = [], t_watchlists = [], t_achievements = [],
               t_anime_cache = [], t_character_cache = []\<rparr>"

section \<open>The Catalog Cache\<close>

text \<open>
  \<open>sqlite3\<close> binds \<open>None\<close>, \<open>int\<close>, \<open>float\<close> and \<open>str\<close>; a list or a dict raises, an \<open>int\<close>
  outside 64 bits raises \<open>OverflowError\<close>. A value of the column's own storage class is
  stored as it is, and an \<open>int\<close> in a \<open>REAL\<close> column becomes the float of the same value
  (exactly, up to \<open>2^53\<close>). The other conversions that SQLite's column affinity makes (a
  number into text, a numeric text into a number, a float into an integer) are not modelled.
\<close>

fun bind_text :: "json \<Rightarrow> string option outcome" where
  "bind_text JNull = Ret None"
| "bind_text (JStr s) = Ret (Some s)"
| "bind_text (JList xs) = Raise BindError"
| "bind_text (JObj kvs) = Raise BindError"
| "bind_text _ = Unmodelled"

fun bind_integer :: "json \<Rightarrow> int option outcome" where
  "bind_integer JNull = Ret None"
| "bind_integer (JInt n) = (if int64_ok n then Ret (Some n) else Raise OverflowError)"
| "bind_integer (JList xs) = Raise BindError"
| "bind_integer (JObj kvs) = Raise BindError"
| "bind_integer _ = Unmodelled"

fun bind_real :: "json \<Rightarrow> (int \<times> int) option outcome" where
  "bind_real JNull = Ret None"
| "bind_real (JFloat m e) = Ret (Some (m, e))"
| "bind_real (JInt n) =
     (if \<not> int64_ok n then Raise OverflowError
      else if - 9007199254740992 \<le> n \<and> n \<le> 9007199254740992 then Ret (Some (n, 0))
      else Unmodelled)"
| "bind_real (JList xs) = Raise BindError"
| "bind_real (JObj kvs) = Raise BindError"
| "bind_real _ = Unmodelled"

text \<open>
  The key column is \<open>INTEGER PRIMARY KEY\<close>: an \<open>int\<close> is the key; what SQLite does with
  \<open>NULL\<close> (it picks a fresh key) or with another storage class is not modelled.
\<close>

fun bind_key :: "json \<Rightarrow> int outcome" where
  "bind_key (JInt n) = (if int64_ok n then Ret n else Raise OverflowError)"
| "bind_key (JList xs) = Raise BindError"
| "bind_key (JObj kvs) = Raise BindError"
| "bind_key _ = Unmodelled"

fun omap :: "('a \<Rightarrow> 'b outcome) \<Rightarrow> 'a list \<Rightarrow> 'b list outcome" where
  "omap f [] = Ret []"
| "omap f (x # xs) = obind (f x) (\<lambda>y. obind (omap f xs) (\<lambda>ys. Ret (y # ys)))"

text \<open>\<open>[g['name'] for g in anime_data.get(key, [])]\<close>\<close>

definition names_of :: "json \<Rightarrow> string \<Rightarrow> json list outcome" where
  "names_of anime_data key =
     obind (py_get_d anime_data key (JList [])) (\<lambda>v.
     obind (py_iter v) (\<lambda>gs. omap (\<lambda>g. py_item g ''name'') gs))"

text \<open>
  The image of an anime: \<open>None\<close> unless \<open>images.get('jpg')\<close> is true, then
  \<open>images['jpg'].get('large_image_url') or images['jpg'].get('image_url')\<close>.
\<close>

definition anime_image_url :: "json \<Rightarrow> json outcome" where
  "anime_image_url anime_data =
     obind (py_get_d anime_data ''images'' (JObj [])) (\<lambda>images.
     obind (py_get images ''jpg'') (\<lambda>jpg.
       if truthy jpg then
         obind (py_get jpg ''large_image_url'') (\<lambda>large.
           if truthy large then Ret large else py_get jpg ''image_url'')
       else Ret JNull))"

text \<open>
  The key and the row that \<open>cache_anime\<close> writes: the three lists of names, the image, then
  the sixteen parameters of the statement in their order, each bound to its column.
\<close>

definition anime_row_of :: "nat \<Rightarrow> json \<Rightarrow> (int \<times> anime_row) outcome" where
  "anime_row_of now anime_data =
     obind (names_of anime_data ''genres'') (\<lambda>genres.
     obind (names_of anime_data ''studios'') (\<lambda>studios.
     obind (names_of anime_data ''producers'') (\<lambda>producers.
     obind (anime_image_url anime_data) (\<lambda>image_url.
     obind (obind (py_get anime_data ''mal_id'') bind_key) (\<lambda>k.
     obind (obind (py_get anime_data ''title'') bind_text) (\<lambda>title.
     obind (obind (py_get anime_data ''title_japanese'') bind_text) (\<lambda>title_japanese.
     obind (obind (py_get anime_data ''title_english'') bind_text) (\<lambda>title_english.
     obind (bind_text image_url) (\<lambda>image.
     obind (obind (py_get anime_data ''synopsis'') bind_text) (\<lambda>synopsis.
     obind (obind (py_get anime_data ''score'') bind_real) (\<lambda>score.
     obind (obind (py_get anime_data ''episodes'') bind_integer) (\<lambda>episodes.
     obind (obind (py_get anime_data ''status'') bind_text) (\<lambda>status.
     obind (obind (py_get anime_data ''year'') bind_integer) (\<lambda>year.
     obind (obind (py_get anime_data ''duration'') bind_text) (\<lambda>duration.
     obind (obind (py_get anime_data ''rating'') bind_text) (\<lambda>rating.
     obind (obind (py_get anime_data ''source'') bind_text) (\<lambda>source.
       Ret (k, \<lparr>c_title = title, c_title_japanese = title_japanese,
                c_title_english = title_english, c_image_url = image,
                c_synopsis = synopsis, c_score = score, c_episodes = episodes,
                c_status = status, c_year = year, c_genres = genres,
                c_studios = studios, c_producers = producers, c_duration = duration,
                c_rating = rating, c_source = source, c_cached_at = now\<rparr>))))))))))))))))))"

definition cache_anime :: "nat \<Rightarrow> json \<Rightarrow> db \<Rightarrow> unit outcome \<times> db" where
  "cache_anime now anime_data d =
     (case anime_row_of now anime_data of
        Ret (k, row) \<Rightarrow> (Ret (), d\<lparr>t_anime_cache := insert_or_replace k row (t_anime_cache d)\<rparr>)
      | Raise e \<Rightarrow> (Raise e, d)
      | Unmodelled \<Rightarrow> (Unmodelled, d))"

definition of_text :: "string option \<Rightarrow> json" where
  "of_text t = (case t of None \<Rightarrow> JNull | Some s \<Rightarrow> JStr s)"

definition of_integer :: "int option \<Rightarrow> json" where
  "of_integer t = (case t of None \<Rightarrow> JNull | Some n \<Rightarrow> JInt n)"

definition of_real :: "(int \<times> int) option \<Rightarrow> json" where
  "of_real t = (case t of None \<Rightarrow> JNull | Some (m, e) \<Rightarrow> JFloat m e)"

definition named :: "json list \<Rightarrow> json" where
  "named names = JList (map (\<lambda>name. JObj [(''name'', name)]) names)"

text \<open>The dict that \<open>get_cached_anime\<close> rebuilds from a row, key by key.\<close>

definition anime_of_row :: "int \<Rightarrow> anime_row \<Rightarrow> json" where
  "anime_of_row k row = JObj
     [(''mal_id'', JInt k),
      (''title'', of_text (c_title row)),
      (''title_japanese'', of_text (c_title_japanese row)),
      (''title_english'', of_text (c_title_english row)),
      (''images'', JObj [(''jpg'', JObj [(''image_url'', of_text (c_image_url row)),
                                         (''large_image_url'', of_text (c_image_url row))])]),
      (''synopsis'', of_text (c_synopsis row)),
      (''score'', of_real (c_score row)),
      (''episodes'', of_integer (c_episodes row)),
      (''status'', of_text (c_status row)),
      (''year'', of_integer (c_year row)),
      (''genres'', named (c_genres row)),
      (''studios'', named (c_studios row)),
      (''producers'', named (c_producers row)),
      (''duration'', of_text (c_duration row)),
      (''rating'', of_text (c_rating row)),
      (''source'', of_text (c_source row))]"

definition get_cached_anime :: "int \<Rightarrow> db \<Rightarrow> json outcome" where
  "get_cached_anime anime_id d =
     (if \<not> int64_ok anime_id then Raise OverflowError
      else case map_of (t_anime_cache d) anime_id of
          None \<Rightarrow> Ret JNull
        | Some row \<Rightarrow> Ret (anime_of_row anime_id row))"

text \<open>The cache of characters: the two list columns hold \<open>json.dumps\<close> of what the dict has.\<close>

definition character_image_url :: "json \<Rightarrow> json outcome" where
  "character_image_url character_data =
     obind (py_get_d character_data ''images'' (JObj [])) (\<lambda>images.
     obind (py_get images ''jpg'') (\<lambda>jpg.
       if truthy jpg then py_get jpg ''image_url'' else Ret JNull))"

definition character_row_of :: "nat \<Rightarrow> json \<Rightarrow> (int \<times> char_row) outcome" where
  "character_row_of now character_data =
     obind (py_get_d character_data ''animeography'' (JList [])) (\<lambda>animeography.
     obind (py_get_d character_data ''voices'' (JList [])) (\<lambda>voices.
     obind (character_image_url character_data) (\<lambda>image_url.
     obind (obind (py_get character_data ''mal_id'') bind_key) (\<lambda>k.
     obind (obind (py_get character_data ''name'') bind_text) (\<lambda>name.
     obind (obind (py_get character_data ''name_kanji'') bind_text) (\<lambda>name_kanji.
     obind (obind (py_get character_data ''about'') bind_text) (\<lambda>about.
     obind (bind_text image_url) (\<lambda>image.
     obind (obind (py_get character_data ''favorites'') bind_integer) (\<lambda>favs.
       Ret (k, \<lparr>h_name = name, h_name_kanji = name_kanji, h_about = about,
                h_image_url = image, h_favorites = favs, h_animeography = animeography,
                h_voice_actors = voices, h_cached_at = now\<rparr>))))))))))"

definition cache_character :: "nat \<Rightarrow> json \<Rightarrow> db \<Rightarrow> unit outcome \<times> db" where
  "cache_character now character_data d =
     (case character_row_of now character_data of
        Ret (k, row) \<Rightarrow>
          (Ret (), d\<lparr>t_character_cache := insert_or_replace k row (t_character_cache d)\<rparr>)
      | Raise e \<Rightarrow> (Raise e, d)
      | Unmodelled \<Rightarrow> (Unmodelled, d))"

definition character_of_row :: "int \<Rightarrow> char_row \<Rightarrow> json" where
  "character_of_row k row = JObj
     [(''mal_id'', JInt k),
      (''name'', of_text (h_name row)),
      (''name_kanji'', of_text (h_name_kanji row)),
      (''about'', of_text (h_about row)),
      (''images'', JObj [(''jpg'', JObj [(''image_url'', of_text (h_image_url row))])]),
      (''favorites'', of_integer (h_favorites row)),
      (''animeography'', h_animeography row),
      (''voices'', h_voice_actors row)]"

definition get_cached_character :: "int \<Rightarrow> db \<Rightarrow> json outcome" where
  "get_cached_character character_id d =
     (if \<not> int64_ok character_id then Raise OverflowError
      else case map_of (t_character_cache d) character_id of
          None \<Rightarrow> Ret JNull
        | Some row \<Rightarrow> Ret (character_of_row character_id row))"

section \<open>What the transport is asked to send\<close>

text \<open>
  What a handler sends to the transport, in order. A fixed text is named by a constructor of
  \<open>msg\<close>, with the values that the source interpolates; a button is its label and its
  callback data.
\<close>

datatype label =
    LTitle string
  | LPrev
  | LNext
  | LPageOf int int
  | LMinus
  | LPlus
  | LNumber int
  | LFinish int
  | LBack
  | LText string

datatype button = Button label string

type_synonym keyboard = "button list list"

datatype msg =
    MsgFavRemoved
  | MsgFavAdded
  | MsgAddedTo string
  | MsgNewAchievements "string list"
  | MsgProgressEditor
  | MsgProgressCompleted int int
  | MsgProgress int "int option"
  | MsgProfile
  | MsgWatchlistMenu
  | MsgLoadingRecommendations
  | MsgNoRecommendations
  | MsgTopUnavailable

datatype out =
    Answer "msg option"
  | ReplyText msg "keyboard option"
  | EditText msg "keyboard option"
  | EditReplyMarkup keyboard

section \<open>The Catalog Client\<close>

text \<open>
  The world outside one run of a handler: what \<open>requests.get\<close> does for each URL of the
  catalog (it returns a response or raises), the clock, the order in which Python iterates a
  \<open>set\<close> of ids built by the given insertions, \<open>html.unescape\<close>, and what the transport
  does with a call, given the calls it has accepted so far in this run: it accepts the call
  or raises. A request stands for the URL that the f-string builds from its arguments. A
  response is its status code and what \<open>r.json()\<close> does: it returns the decoded body or raises.
\<close>

datatype request =
    GetAnimeSearch string int
  | GetAnimeGenre string int
  | GetAnime int
  | GetSeason string string
  | GetCharacterSearch string int
  | GetCharacterFull int
  | GetAnimeCharacters int
  | GetTop string int int
  | GetRandom
  | GetSchedules "string option"

record response =
  r_status :: int
  r_json :: "json outcome"

record env =
  e_http :: "request \<Rightarrow> response outcome"
  e_now :: nat
  e_set_order :: "int list \<Rightarrow> int list"
  e_unescape :: "string \<Rightarrow> string"
  e_send :: "out list \<Rightarrow> out \<Rightarrow> exn option"

text \<open>
  \<open>try: ... except requests.exceptions.RequestException: log\<close>, followed by the function's
  last \<open>return\<close>: an exception of that class gives the default, any other passes through.
\<close>

definition except_request :: "'a \<Rightarrow> 'a outcome \<times> db \<Rightarrow> 'a outcome \<times> db" where
  "except_request dflt r =
     (case r of
        (Raise e, d) \<Rightarrow> if e = RequestError then (Ret dflt, d) else (Raise e, d)
      | _ \<Rightarrow> r)"

fun for_each :: "('a \<Rightarrow> 's \<Rightarrow> unit outcome \<times> 's) \<Rightarrow> 'a list \<Rightarrow> 's \<Rightarrow> unit outcome \<times> 's" where
  "for_each f [] s = (Ret (), s)"
| "for_each f (x # xs) s = sbind (f x) (\<lambda>_. for_each f xs) s"

text \<open>\<open>for anime in anime_list: db.cache_anime(anime)\<close>\<close>

definition cache_each ::
  "(nat \<Rightarrow> json \<Rightarrow> db \<Rightarrow> unit outcome \<times> db) \<Rightarrow> env \<Rightarrow> json \<Rightarrow> db \<Rightarrow> unit outcome \<times> db" where
  "cache_each cache env anime_list =
     sbind (lift (py_iter anime_list)) (\<lambda>xs. for_each (cache (e_now env)) xs)"

text \<open>
  The operations that return a list: on status 200 the list is \<open>data.get("data") or []\<close>, every
  item is written to the cache and the list is returned; otherwise the default.
\<close>

definition fetch_list ::
  "(nat \<Rightarrow> json \<Rightarrow> db \<Rightarrow> unit outcome \<times> db) \<Rightarrow> env \<Rightarrow> request \<Rightarrow> json \<Rightarrow> db \<Rightarrow> json outcome \<times> db" where
  "fetch_list cache env req dflt d =
     except_request dflt
       (sbind (lift (e_http env req)) (\<lambda>r.
          if r_status r = 200 then
            sbind (lift (r_json r)) (\<lambda>data.
            sbind (lift (py_get data ''data'')) (\<lambda>v.
            sbind (cache_each cache env (py_or v (JList []))) (\<lambda>_.
              lift (Ret (py_or v (JList []))))))
          else lift (Ret dflt)) d)"

definition search_anime :: "env \<Rightarrow> string \<Rightarrow> int \<Rightarrow> db \<Rightarrow> json outcome \<times> db" where
  "search_anime env query limit = fetch_list cache_anime env (GetAnimeSearch query limit) JNull"

definition search_character :: "env \<Rightarrow> string \<Rightarrow> int \<Rightarrow> db \<Rightarrow> json outcome \<times> db" where
  "search_character env query limit =
     fetch_list cache_character env (GetCharacterSearch query limit) JNull"

text \<open>\<open>get_schedule(day)\<close>: an empty or absent day asks for the whole week.\<close>

definition get_schedule :: "env \<Rightarrow> string option \<Rightarrow> db \<Rightarrow> json outcome \<times> db" where
  "get_schedule env day =
     fetch_list cache_anime env
       (GetSchedules (case day of None \<Rightarrow> None | Some s \<Rightarrow> if s = [] then None else Some s))
       (JList [])"

text \<open>\<open>x[:20]\<close>: a list or a string is cut; a number, a boolean or \<open>None\<close> is not subscriptable.\<close>

fun py_take20 :: "json \<Rightarrow> json outcome" where
  "py_take20 (JList xs) = Ret (JList (take 20 xs))"
| "py_take20 (JStr s) = Ret (JStr (take 20 s))"
| "py_take20 (JObj kvs) = Unmodelled"
| "py_take20 _ = Raise TypeError"

definition get_anime_by_season :: "env \<Rightarrow> string \<Rightarrow> string \<Rightarrow> db \<Rightarrow> json outcome \<times> db" where
  "get_anime_by_season env year season d =
     except_request JNull
       (sbind (lift (e_http env (GetSeason year season))) (\<lambda>r.
          if r_status r = 200 then
            sbind (lift (r_json r)) (\<lambda>data.
            sbind (lift (py_get data ''data'')) (\<lambda>v.
            sbind (lift (py_take20 (py_or v (JList [])))) (\<lambda>anime_list.
            sbind (cache_each cache_anime env anime_list) (\<lambda>_.
              lift (Ret anime_list)))))
          else lift (Ret JNull)) d)"

text \<open>
  The operations that return one entity: on status 200 the entity is \<open>r.json().get("data")\<close>;
  it is written to the cache when it is true, and returned.
\<close>

definition fetch_one ::
  "(nat \<Rightarrow> json \<Rightarrow> db \<Rightarrow> unit outcome \<times> db) \<Rightarrow> env \<Rightarrow> request \<Rightarrow> db \<Rightarrow> json outcome \<times> db" where
  "fetch_one cache env req d =
     except_request JNull
       (sbind (lift (e_http env req)) (\<lambda>r.
          if r_status r = 200 then
            sbind (lift (r_json r)) (\<lambda>data.
            sbind (lift (py_get data ''data'')) (\<lambda>anime.
            sbind (if truthy anime then cache (e_now env) anime else lift (Ret ())) (\<lambda>_.
              lift (Ret anime))))
          else lift (Ret JNull)) d)"

text \<open>Fetch by id: the cache is read first, and a hit is returned without a request.\<close>

definition get_anime_by_id :: "env \<Rightarrow> int \<Rightarrow> db \<Rightarrow> json outcome \<times> db" where
  "get_anime_by_id env anime_id =
     sbind (\<lambda>d. (get_cached_anime anime_id d, d)) (\<lambda>cached_anime.
       if truthy cached_anime then lift (Ret cached_anime)
       else fetch_one cache_anime env (GetAnime anime_id))"

definition get_character_by_id :: "env \<Rightarrow> int \<Rightarrow> db \<Rightarrow> json outcome \<times> db" where
  "get_character_by_id env character_id =
     sbind (\<lambda>d. (get_cached_character character_id d, d)) (\<lambda>cached_character.
       if truthy cached_character then lift (Ret cached_character)
       else fetch_one cache_character env (GetCharacterFull character_id))"

definition get_random_anime :: "env \<Rightarrow> db \<Rightarrow> json outcome \<times> db" where
  "get_random_anime env = fetch_one cache_anime env GetRandom"

text \<open>The two operations that write nothing to the cache.\<close>

definition fetch_plain :: "env \<Rightarrow> request \<Rightarrow> db \<Rightarrow> json outcome \<times> db" where
  "fetch_plain env req d =
     except_request (JList [])
       (sbind (lift (e_http env req)) (\<lambda>r.
          if r_status r = 200 then
            sbind (lift (r_json r)) (\<lambda>data.
            sbind (lift (py_get data ''data'')) (\<lambda>v. lift (Ret (py_or v (JList [])))))
          else lift (Ret (JList []))) d)"

definition get_anime_characters :: "env \<Rightarrow> int \<Rightarrow> db \<Rightarrow> json outcome \<times> db" where
  "get_anime_characters env anime_id = fetch_plain env (GetAnimeCharacters anime_id)"

definition search_anime_by_genre :: "env \<Rightarrow> string \<Rightarrow> int \<Rightarrow> db \<Rightarrow> json outcome \<times> db" where
  "search_anime_by_genre env genre limit = fetch_plain env (GetAnimeGenre genre limit)"

text \<open>
  \<open>get_top_anime\<close> returns a pair: the list, and the number of the last page,
  \<open>data.get("pagination", {}).get("last_visible_page", 1)\<close>; \<open>([], 1)\<close> on failure.
\<close>

definition get_top_anime ::
  "env \<Rightarrow> string \<Rightarrow> int \<Rightarrow> int \<Rightarrow> db \<Rightarrow> (json \<times> json) outcome \<times> db" where
  "get_top_anime env filter_type page limit d =
     except_request (JList [], JInt 1)
       (sbind (lift (e_http env (GetTop filter_type page limit))) (\<lambda>r.
          if r_status r = 200 then
            sbind (lift (r_json r)) (\<lambda>data.
            sbind (lift (py_get data ''data'')) (\<lambda>v.
            sbind (cache_each cache_anime env (py_or v (JList []))) (\<lambda>_.
            sbind (lift (py_get_d data ''pagination'' (JObj []))) (\<lambda>pagination.
            sbind (lift (py_get_d pagination ''last_visible_page'' (JInt 1))) (\<lambda>last.
              lift (Ret (py_or v (JList []), last)))))))
          else lift (Ret (JList [], JInt 1))) d)"

section \<open>The Recommendation Engine\<close>

text \<open>
  The known set of a user: \<open>set(favorites)\<close>, then the ids of the watch list added one by
  one. \<open>known_insertions\<close> is the sequence of insertions, which decides membership;
  \<open>known_ids\<close> is the order in which \<open>for anime_id in all_anime_ids\<close> visits the set.
\<close>

definition known_insertions :: "int \<Rightarrow> db \<Rightarrow> int list outcome" where
  "known_insertions user_id d =
     obind (get_favorites user_id d) (\<lambda>favorites.
     obind (get_watchlist user_id None d) (\<lambda>watchlist.
       Ret (favorites @ map wi_anime_id watchlist)))"

definition known_ids :: "env \<Rightarrow> int \<Rightarrow> db \<Rightarrow> int list outcome" where
  "known_ids env user_id d = obind (known_insertions user_id d) (\<lambda>ins. Ret (e_set_order env ins))"

text \<open>\<open>db.get_cached_anime(anime_id) or get_anime_by_id(anime_id)\<close>\<close>

definition resolve_anime :: "env \<Rightarrow> int \<Rightarrow> db \<Rightarrow> json outcome \<times> db" where
  "resolve_anime env anime_id =
     sbind (\<lambda>d. (get_cached_anime anime_id d, d)) (\<lambda>cached.
       if truthy cached then lift (Ret cached) else get_anime_by_id env anime_id)"

text \<open>
  \<open>if anime and 'genres' in anime: for genre in anime['genres']: ... genre['name'] ...\<close>: the
  names of the genres of one anime, in order, each used as a key of a dict or a member of a
  set as soon as it is read.
\<close>

definition genre_names :: "json \<Rightarrow> string list outcome" where
  "genre_names anime =
     (if \<not> truthy anime then Ret []
      else obind (py_has_key anime ''genres'') (\<lambda>has.
        if has then
          obind (py_item anime ''genres'') (\<lambda>gs.
          obind (py_iter gs) (\<lambda>xs.
            omap (\<lambda>genre. obind (py_item genre ''name'') py_hashable_str) xs))
        else Ret []))"

text \<open>A loop over ids that resolves each id and collects what \<open>f\<close> reads from the anime.\<close>

fun collect ::
  "env \<Rightarrow> (json \<Rightarrow> 'a list outcome) \<Rightarrow> int list \<Rightarrow> db \<Rightarrow> 'a list outcome \<times> db" where
  "collect env f [] d = (Ret [], d)"
| "collect env f (anime_id # ids) d =
     sbind (resolve_anime env anime_id) (\<lambda>anime.
     sbind (lift (f anime)) (\<lambda>ys.
     sbind (collect env f ids) (\<lambda>zs. lift (Ret (ys @ zs))))) d"

definition check_genre_variety :: "env \<Rightarrow> int \<Rightarrow> db \<Rightarrow> int outcome \<times> db" where
  "check_genre_variety env user_id =
     sbind (\<lambda>d. (known_ids env user_id d, d)) (\<lambda>ids.
     sbind (collect env genre_names ids) (\<lambda>names.
       lift (Ret (int (length (remdups names))))))"

text \<open>
  The text that an f-string gives for an object; the rendering of a float, a list or a dict
  is not modelled.
\<close>

fun py_format :: "json \<Rightarrow> string outcome" where
  "py_format (JStr s) = Ret s"
| "py_format (JInt n) = Ret (show_int n)"
| "py_format JNull = Ret ''None''"
| "py_format (JBool b) = Ret (if b then ''True'' else ''False'')"
| "py_format _ = Unmodelled"

text \<open>
  \<open>if anime and 'year' in anime and 'season' in anime:
  seasons.add(f"{anime['year']}-{anime.get('season', '')}")\<close>
\<close>

definition season_label :: "json \<Rightarrow> string list outcome" where
  "season_label anime =
     (if \<not> truthy anime then Ret []
      else obind (py_has_key anime ''year'') (\<lambda>has_year.
        if \<not> has_year then Ret []
        else obind (py_has_key anime ''season'') (\<lambda>has_season.
          if \<not> has_season then Ret []
          else obind (py_item anime ''year'') (\<lambda>y.
               obind (py_format y) (\<lambda>ys.
               obind (py_get_d anime ''season'' (JStr [])) (\<lambda>s.
               obind (py_format s) (\<lambda>ss. Ret [ys @ ''-'' @ ss])))))))"

definition check_season_variety :: "env \<Rightarrow> int \<Rightarrow> db \<Rightarrow> int outcome \<times> db" where
  "check_season_variety env user_id =
     sbind (\<lambda>d. (known_ids env user_id d, d)) (\<lambda>ids.
     sbind (collect env season_label ids) (\<lambda>labels.
       lift (Ret (int (length (remdups labels))))))"

subsection \<open>Achievements\<close>

text \<open>
  The registry \<open>ACHIEVEMENTS\<close>, in the order of the dict: the type, the name shown to the
  user (here without its pictogram and accents) and the condition.
\<close>

definition cond_anime_explorer :: "env \<Rightarrow> int \<Rightarrow> db \<Rightarrow> bool outcome \<times> db" where
  "cond_anime_explorer env user_id d =
     (obind (get_favorites user_id d) (\<lambda>favorites.
      obind (get_watchlist user_id None d) (\<lambda>watchlist.
        Ret (50 \<le> length favorites + length watchlist))), d)"

definition cond_genre_master :: "env \<Rightarrow> int \<Rightarrow> db \<Rightarrow> bool outcome \<times> db" where
  "cond_genre_master env user_id =
     sbind (check_genre_variety env user_id) (\<lambda>n. lift (Ret (10 \<le> n)))"

definition cond_season_watcher :: "env \<Rightarrow> int \<Rightarrow> db \<Rightarrow> bool outcome \<times> db" where
  "cond_season_watcher env user_id =
     sbind (check_season_variety env user_id) (\<lambda>n. lift (Ret (4 \<le> n)))"

definition cond_anime_lover :: "env \<Rightarrow> int \<Rightarrow> db \<Rightarrow> bool outcome \<times> db" where
  "cond_anime_lover env user_id d =
     (obind (get_favorites user_id d) (\<lambda>favorites. Ret (20 \<le> length favorites)), d)"

definition cond_completionist :: "env \<Rightarrow> int \<Rightarrow> db \<Rightarrow> bool outcome \<times> db" where
  "cond_completionist env user_id d =
     (obind (get_watchlist user_id None d) (\<lambda>watchlist.
        Ret (10 \<le> length (filter (\<lambda>item. wi_status item = ''completed'') watchlist))), d)"

definition ACHIEVEMENTS :: "(string \<times> string \<times> (env \<Rightarrow> int \<Rightarrow> db \<Rightarrow> bool outcome \<times> db)) list" where
  "ACHIEVEMENTS =
     [(''anime_explorer'', ''Explorateur d'Animes'', cond_anime_explorer),
      (''genre_master'', ''Maitre des Genres'', cond_genre_master),
      (''season_watcher'', ''Observateur de Saisons'', cond_season_watcher),
      (''anime_lover'', ''Amoureux d'Animes'', cond_anime_lover),
      (''completionist'', ''Completionniste'', cond_completionist)]"

text \<open>
  \<open>check_achievements\<close>: for each entry whose condition holds, \<open>add_achievement\<close> is called,
  and the name is reported when the call says that it inserted.
\<close>

fun grant_loop ::
  "env \<Rightarrow> int \<Rightarrow> (string \<times> string \<times> (env \<Rightarrow> int \<Rightarrow> db \<Rightarrow> bool outcome \<times> db)) list \<Rightarrow>
   string list \<Rightarrow> db \<Rightarrow> string list outcome \<times> db" where
  "grant_loop env user_id [] new_achievements d = (Ret new_achievements, d)"
| "grant_loop env user_id ((achievement_id, name, condition) # rest) new_achievements d =
     sbind (condition env user_id) (\<lambda>holds.
       if holds then
         sbind (add_achievement (e_now env) user_id achievement_id name) (\<lambda>added.
           grant_loop env user_id rest
             (if added then new_achievements @ [name] else new_achievements))
       else grant_loop env user_id rest new_achievements) d"

definition check_achievements :: "env \<Rightarrow> int \<Rightarrow> db \<Rightarrow> string list outcome \<times> db" where
  "check_achievements env user_id = grant_loop env user_id ACHIEVEMENTS []"

subsection \<open>Personal recommendations\<close>

text \<open>
  The counter of genres is a dict: a new name is appended with count one, a known name keeps
  its place and its count grows.
\<close>

fun tally_add :: "string \<Rightarrow> (string \<times> nat) list \<Rightarrow> (string \<times> nat) list" where
  "tally_add g [] = [(g, 1)]"
| "tally_add g ((h, c) # rest) = (if h = g then (h, c + 1) # rest else (h, c) # tally_add g rest)"

definition genre_tally :: "string list \<Rightarrow> (string \<times> nat) list" where
  "genre_tally names = fold tally_add names []"

text \<open>
  \<open>sorted(genre_counter.items(), key=lambda x: x[1], reverse=True)[:3]\<close>: Python's sort is
  stable, also with \<open>reverse=True\<close>: items of equal count keep the order of the dict.
\<close>

definition top_genres :: "string list \<Rightarrow> (string \<times> nat) list" where
  "top_genres names = take 3 (sort_key (\<lambda>item. - int (snd item)) (genre_tally names))"

text \<open>
  The id of a candidate, \<open>rec['mal_id']\<close>, tested for membership in the known set and in the
  ids chosen so far. An id that is no \<open>int\<close> is not modelled, but for a list or a dict, which
  cannot be hashed.
\<close>

definition rec_id :: "json \<Rightarrow> int outcome" where
  "rec_id rec =
     obind (py_item rec ''mal_id'') (\<lambda>v.
       case v of
         JInt n \<Rightarrow> Ret n
       | JList xs \<Rightarrow> Raise TypeError
       | JObj kvs \<Rightarrow> Raise TypeError
       | _ \<Rightarrow> Unmodelled)"

text \<open>
  The inner loop: a candidate that is neither known nor chosen is appended; the loop stops
  as soon as an append brings the length to \<open>limit\<close>.
\<close>

fun add_recs :: "int \<Rightarrow> int list \<Rightarrow> json list \<Rightarrow> (int \<times> json) list \<Rightarrow> (int \<times> json) list outcome" where
  "add_recs limit known [] recommendations = Ret recommendations"
| "add_recs limit known (rec # rest) recommendations =
     obind (rec_id rec) (\<lambda>i.
       if i \<notin> set known \<and> i \<notin> set (map fst recommendations) then
         (if limit \<le> int (length recommendations) + 1 then Ret (recommendations @ [(i, rec)])
          else add_recs limit known rest (recommendations @ [(i, rec)]))
       else add_recs limit known rest recommendations)"

fun genre_loop ::
  "env \<Rightarrow> int \<Rightarrow> int list \<Rightarrow> string list \<Rightarrow> (int \<times> json) list \<Rightarrow> db \<Rightarrow>
   (int \<times> json) list outcome \<times> db" where
  "genre_loop env limit known [] recommendations d = (Ret recommendations, d)"
| "genre_loop env limit known (genre # rest) recommendations d =
     sbind (search_anime_by_genre env genre limit) (\<lambda>genre_recommendations.
     sbind (lift (py_iter genre_recommendations)) (\<lambda>recs.
     sbind (lift (add_recs limit known recs recommendations)) (\<lambda>recommendations'.
       if limit \<le> int (length recommendations') then lift (Ret recommendations')
       else genre_loop env limit known rest recommendations'))) d"

text \<open>\<open>xs[:limit]\<close>: a negative limit drops that many items from the end.\<close>

definition py_prefix :: "int \<Rightarrow> 'a list \<Rightarrow> 'a list" where
  "py_prefix limit xs = (if 0 \<le> limit then take (nat limit) xs else take (length xs - nat (- limit)) xs)"

text \<open>
  What \<open>get_personal_recommendations\<close> returns: the list \<open>recommendations[:limit]\<close>, or, from
  its first \<open>return\<close>, the value of \<open>get_top_anime\<close>, which is a pair.
\<close>

datatype recs = RecList "json list" | RecPair json json

definition get_personal_recommendations :: "env \<Rightarrow> int \<Rightarrow> int \<Rightarrow> db \<Rightarrow> recs outcome \<times> db" where
  "get_personal_recommendations env user_id limit =
     sbind (\<lambda>d. (get_favorites user_id d, d)) (\<lambda>favorites.
     sbind (\<lambda>d. (get_watchlist user_id None d, d)) (\<lambda>watchlist.
       if favorites = [] \<and> watchlist = [] then
         sbind (get_top_anime env ''all'' 1 limit) (\<lambda>top. lift (Ret (RecPair (fst top) (snd top))))
       else
         let known = favorites @ map wi_anime_id watchlist in
         sbind (collect env genre_names (e_set_order env known)) (\<lambda>names.
         sbind (genre_loop env limit known (map fst (top_genres names)) []) (\<lambda>recommendations.
         sbind (if int (length recommendations) < limit then
                  sbind (get_top_anime env ''all'' 1 (limit * 2)) (\<lambda>top_anime.
                    lift (add_recs limit known [fst top_anime, snd top_anime] recommendations))
                else lift (Ret recommendations)) (\<lambda>recommendations'.
           lift (Ret (RecList (py_prefix limit (map snd recommendations')))))))))"

section \<open>The Navigation Router\<close>

text \<open>
  The state that a handler works on: the Entity Store, the session data of the user
  (\<open>context.user_data\<close>, a dict) and what has been sent so far.
\<close>

record st =
  s_db :: db
  s_session :: "(string \<times> json) list"
  s_out :: "out list"

definition on_db :: "(db \<Rightarrow> 'a outcome \<times> db) \<Rightarrow> st \<Rightarrow> 'a outcome \<times> st" where
  "on_db f s = (case f (s_db s) of (r, d) \<Rightarrow> (r, s\<lparr>s_db := d\<rparr>))"

definition read_db :: "(db \<Rightarrow> 'a outcome) \<Rightarrow> st \<Rightarrow> 'a outcome \<times> st" where
  "read_db f s = (f (s_db s), s)"

text \<open>
  A call of the transport (\<open>await query.answer(...)\<close>, \<open>await query.message.reply_text(...)\<close>
  and the like): the world accepts it, and it is recorded, or the call raises and the handler
  ends there. The last call of the branch of \<open>progress_\<close> stands in \<open>try: ... except: pass\<close>.
\<close>

definition emit :: "env \<Rightarrow> out \<Rightarrow> st \<Rightarrow> unit outcome \<times> st" where
  "emit env x s =
     (case e_send env (s_out s) x of
        None \<Rightarrow> (Ret (), s\<lparr>s_out := s_out s @ [x]\<rparr>)
      | Some e \<Rightarrow> (Raise e, s))"

definition emit_or_pass :: "env \<Rightarrow> out \<Rightarrow> st \<Rightarrow> unit outcome \<times> st" where
  "emit_or_pass env x s =
     (case e_send env (s_out s) x of
        None \<Rightarrow> (Ret (), s\<lparr>s_out := s_out s @ [x]\<rparr>)
      | Some e \<Rightarrow> (Ret (), s))"

subsection \<open>Keyboards\<close>

text \<open>
  \<open>decode_html_entities\<close>: a false value gives the empty string, a string is unescaped; what
  \<open>html.unescape\<close> does with another object is not modelled.
\<close>

definition decode_html_entities :: "env \<Rightarrow> json \<Rightarrow> string outcome" where
  "decode_html_entities env text =
     (if \<not> truthy text then Ret []
      else case text of JStr s \<Rightarrow> Ret (e_unescape env s) | _ \<Rightarrow> Unmodelled)"

definition shorten :: "nat \<Rightarrow> string \<Rightarrow> string" where
  "shorten n title = (if n < length title then take (n - 3) title @ ''...'' else title)"

text \<open>One button of a page of results.\<close>

definition result_button :: "env \<Rightarrow> string \<Rightarrow> json \<Rightarrow> button outcome" where
  "result_button env search_type item =
     (if search_type = ''anime'' then
        obind (py_get_d item ''title'' (JStr ''Sans titre'')) (\<lambda>t.
        obind (decode_html_entities env t) (\<lambda>title.
        obind (py_get item ''mal_id'') (\<lambda>item_id.
        obind (py_format item_id) (\<lambda>ids.
          Ret (Button (LTitle (shorten 35 title)) (''anime_'' @ ids))))))
      else
        obind (py_get_d item ''name'' (JStr ''Sans nom'')) (\<lambda>t.
        obind (decode_html_entities env t) (\<lambda>title.
        obind (py_get item ''mal_id'') (\<lambda>item_id.
        obind (py_format item_id) (\<lambda>ids.
          Ret (Button (LTitle (shorten 35 title)) (''character_'' @ ids)))))))"

text \<open>
  \<open>create_search_pagination_keyboard\<close>: the buttons of the items \<open>results[i]\<close> for \<open>i\<close> in
  \<open>range(start_idx, end_idx)\<close>, then, when there is more than one page, the row that
  navigates. The session holds what a search returned, a list; another object is not
  modelled.
\<close>

definition create_search_pagination_keyboard ::
  "env \<Rightarrow> json \<Rightarrow> int \<Rightarrow> string \<Rightarrow> string \<Rightarrow> keyboard outcome" where
  "create_search_pagination_keyboard env results current_page query search_type =
     (case results of
        JList xs \<Rightarrow>
          let items_per_page = 5;
              n = int (length xs);
              total_pages = max 1 ((n + items_per_page - 1) div items_per_page);
              start_idx = current_page * items_per_page;
              end_idx = min (start_idx + items_per_page) n
          in obind (omap (\<lambda>i. obind (py_index xs i) (\<lambda>item.
                      obind (result_button env search_type item) (\<lambda>b. Ret [b])))
                    [start_idx ..  end_idx - 1]) (\<lambda>rows.
             Ret (rows @
               (if 1 < total_pages then
                  [(if 0 < current_page then
                      [Button LPrev (''page_'' @ search_type @ ''_'' @ query @ ''_'' @
                                     show_int (current_page - 1))]
                    else []) @
                   [Button (LPageOf (current_page + 1) total_pages) ''noop''] @
                   (if current_page < total_pages - 1 then
                      [Button LNext (''page_'' @ search_type @ ''_'' @ query @ ''_'' @
                                     show_int (current_page + 1))]
                    else [])]
                else [])))
      | _ \<Rightarrow> Unmodelled)"

text \<open>\<open>create_progress_keyboard(anime_id, current_progress, episodes)\<close>\<close>

definition create_progress_keyboard :: "int \<Rightarrow> int \<Rightarrow> int option \<Rightarrow> keyboard" where
  "create_progress_keyboard anime_id current_progress episodes =
     (case episodes of
        Some e \<Rightarrow>
          (if e \<noteq> 0 \<and> current_progress < e then
             [[Button LMinus (''progress_'' @ show_int anime_id @ ''_down''),
               Button (LNumber current_progress) ''noop'',
               Button LPlus (''progress_'' @ show_int anime_id @ ''_up'')]]
           else []) @
          (if e \<noteq> 0 then
             [[Button (LFinish e) (''progress_'' @ show_int anime_id @ ''_'' @ show_int e)]]
           else [])
      | None \<Rightarrow> []) @
     [[Button LBack (''lists_'' @ show_int anime_id)]]"

definition create_profile_keyboard :: keyboard where
  "create_profile_keyboard =
     [[Button (LText ''Favoris'') ''profile_favorites'',
       Button (LText ''Ma Liste'') ''profile_watchlist''],
      [Button (LText ''Statistiques'') ''profile_stats'',
       Button (LText ''Achievements'') ''profile_achievements''],
      [Button (LText ''Recommandations'') ''profile_recommendations'']]"

definition create_watchlist_keyboard :: keyboard where
  "create_watchlist_keyboard =
     [[Button (LText ''A regarder'') ''watchlist_plan'',
       Button (LText ''En cours'') ''watchlist_watch''],
      [Button (LText ''Termines'') ''watchlist_comp'',
       Button (LText ''Abandonnes'') ''watchlist_drop''],
      [Button LBack ''profile_back'']]"

subsection \<open>Dispatch\<close>

text \<open>
  The \<open>if\<close>/\<open>elif\<close> chain of \<open>button_handler\<close>, test by test in the order of the source. The
  tests for \<open>anime_chars_\<close> and the second one for \<open>character_\<close> come after a prefix of theirs.
\<close>

datatype branch =
    BrPage | BrAnime | BrCharacter | BrSynopsis | BrDetails | BrStudio | BrTrailer
  | BrSimilar | BrStreaming | BrTop | BrSchedule | BrAnimeChars | BrCharsPage
  | BrCharacterFull | BrFav | BrLists | BrWatch | BrProgress | BrProfileMain
  | BrProfileFavorites | BrProfileWatchlist | BrWatchlist | BrProfileStats
  | BrProfileAchievements | BrProfileRecommendations | BrProfileBack | BrNoop | BrNone

definition route :: "string \<Rightarrow> branch" where
  "route data =
     (if startswith data ''page_'' then BrPage
      else if startswith data ''anime_'' then BrAnime
      else if startswith data ''character_'' then BrCharacter
      else if startswith data ''synopsis_'' then BrSynopsis
      else if startswith data ''details_'' then BrDetails
      else if startswith data ''studio_'' then BrStudio
      else if startswith data ''trailer_'' then BrTrailer
      else if startswith data ''similar_'' then BrSimilar
      else if startswith data ''streaming_'' then BrStreaming
      else if startswith data ''top_'' then BrTop
      else if startswith data ''schedule_'' then BrSchedule
      else if startswith data ''anime_chars_'' then BrAnimeChars
      else if startswith data ''chars_page_'' then BrCharsPage
      else if startswith data ''character_'' then BrCharacterFull
      else if startswith data ''fav_'' then BrFav
      else if startswith data ''lists_'' then BrLists
      else if startswith data ''watch_'' then BrWatch
      else if startswith data ''progress_'' then BrProgress
      else if data = ''profile_main'' then BrProfileMain
      else if data = ''profile_favorites'' then BrProfileFavorites
      else if data = ''profile_watchlist'' then BrProfileWatchlist
      else if startswith data ''watchlist_'' then BrWatchlist
      else if data = ''profile_stats'' then BrProfileStats
      else if data = ''profile_achievements'' then BrProfileAchievements
      else if data = ''profile_recommendations'' then BrProfileRecommendations
      else if data = ''profile_back'' then BrProfileBack
      else if data = ''noop'' then BrNoop
      else BrNone)"

text \<open>The action tokens that the chain knows.\<close>

definition known_action :: "string \<Rightarrow> bool" where
  "known_action data =
     (list_ex (startswith data)
        [''page_'', ''anime_'', ''character_'', ''synopsis_'', ''details_'', ''studio_'',
         ''trailer_'', ''similar_'', ''streaming_'', ''top_'', ''schedule_'', ''anime_chars_'',
         ''chars_page_'', ''fav_'', ''lists_'', ''watch_'', ''progress_'', ''watchlist_'']
      \<or> list_ex (\<lambda>t. data = t)
        [''profile_main'', ''profile_favorites'', ''profile_watchlist'', ''profile_stats'',
         ''profile_achievements'', ''profile_recommendations'', ''profile_back'', ''noop''])"

subsection \<open>The branches\<close>

text \<open>
  The branch of \<open>page_\<close>: with at least four parts, the page is parsed, the stored results are
  looked up under the key of the search (or of the season, when there is one), and the
  keyboard of the page replaces the one of the message when the results are true. Nothing
  is sent otherwise.
\<close>

definition session_get :: "string \<Rightarrow> st \<Rightarrow> json" where
  "session_get key s = (case map_of (s_session s) key of Some v \<Rightarrow> v | None \<Rightarrow> JList [])"

definition show_page :: "env \<Rightarrow> string \<Rightarrow> int \<Rightarrow> string \<Rightarrow> string \<Rightarrow> st \<Rightarrow> unit outcome \<times> st" where
  "show_page env stored_key page search_query search_type s =
     (let results = session_get stored_key s in
      if truthy results then
        sbind (lift (create_search_pagination_keyboard env results page search_query search_type))
          (\<lambda>keyboard. emit env (EditReplyMarkup keyboard)) s
      else (Ret (), s))"

definition bh_page :: "env \<Rightarrow> string \<Rightarrow> st \<Rightarrow> unit outcome \<times> st" where
  "bh_page env data s =
     (let parts = py_split data in
      if 4 \<le> length parts then
        let search_type = parts ! 1;
            search_query = join_us (butlast (drop 2 parts))
        in sbind (lift (py_int (last parts))) (\<lambda>page s.
             if search_type = ''anime'' then
               show_page env
                 (if (''season_results_'' @ search_query) \<in> set (map fst (s_session s))
                  then ''season_results_'' @ search_query
                  else ''search_results_'' @ search_query)
                 page search_query ''anime'' s
             else if search_type = ''character'' then
               show_page env (''character_results_'' @ search_query) page search_query
                 ''character'' s
             else (Ret (), s)) s
      else (Ret (), s))"

text \<open>
  The branch of \<open>top_\<close>: with at least three parts, the page is parsed and the top list is
  loaded; a false list is answered by a message, and the rendering of a list is not
  modelled. Nothing is sent otherwise.
\<close>

definition bh_top :: "env \<Rightarrow> string \<Rightarrow> st \<Rightarrow> unit outcome \<times> st" where
  "bh_top env data s =
     (let parts = py_split data in
      if 3 \<le> length parts then
        sbind (lift (py_int (parts ! 2))) (\<lambda>page.
        sbind (on_db (get_top_anime env (parts ! 1) page 10)) (\<lambda>top s.
          if truthy (fst top) then (Unmodelled, s)
          else emit env (Answer (Some MsgTopUnavailable)) s)) s
      else (Ret (), s))"

text \<open>
  After a change the handlers run \<open>check_achievements\<close> and, when it reports names, send
  them in a message of their own.
\<close>

definition announce_achievements :: "env \<Rightarrow> int \<Rightarrow> st \<Rightarrow> unit outcome \<times> st" where
  "announce_achievements env user_id =
     sbind (on_db (check_achievements env user_id)) (\<lambda>new_achievements.
       if new_achievements \<noteq> [] then emit env (ReplyText (MsgNewAchievements new_achievements) None)
       else lift (Ret ()))"

text \<open>
  The handlers of \<open>fav_\<close> and \<open>watch_\<close> end with \<open>display_anime_with_navigation\<close> when the anime
  can be loaded: the rendering is not modelled.
\<close>

definition redisplay :: "env \<Rightarrow> int \<Rightarrow> st \<Rightarrow> unit outcome \<times> st" where
  "redisplay env anime_id =
     sbind (on_db (get_anime_by_id env anime_id)) (\<lambda>anime s.
       if truthy anime then (Unmodelled, s) else (Ret (), s))"

definition bh_fav :: "env \<Rightarrow> int \<Rightarrow> string \<Rightarrow> st \<Rightarrow> unit outcome \<times> st" where
  "bh_fav env user_id data =
     sbind (lift (obind (py_index (py_split data) 1) py_int)) (\<lambda>anime_id.
     sbind (read_db (is_favorite user_id anime_id)) (\<lambda>fav.
     sbind (if fav then
              sbind (on_db (remove_from_favorites user_id anime_id)) (\<lambda>_.
                emit env (Answer (Some MsgFavRemoved)))
            else
              sbind (on_db (add_to_favorites (e_now env) user_id anime_id)) (\<lambda>_.
              sbind (emit env (Answer (Some MsgFavAdded))) (\<lambda>_.
                announce_achievements env user_id))) (\<lambda>_.
       redisplay env anime_id)))"

definition status_map :: "string \<Rightarrow> string outcome" where
  "status_map status =
     (if status = ''plan'' then Ret ''plan_to_watch''
      else if status = ''watch'' then Ret ''watching''
      else if status = ''comp'' then Ret ''completed''
      else if status = ''drop'' then Ret ''dropped''
      else Raise KeyError)"

definition bh_watch :: "env \<Rightarrow> int \<Rightarrow> string \<Rightarrow> st \<Rightarrow> unit outcome \<times> st" where
  "bh_watch env user_id data =
     (let parts = py_split data in
      sbind (lift (obind (py_index parts 2) py_int)) (\<lambda>anime_id.
      sbind (lift (obind (py_index parts 1) status_map)) (\<lambda>status.
      sbind (on_db (update_watchlist (e_now env) user_id anime_id status None None)) (\<lambda>_.
      sbind (emit env (Answer (Some (MsgAddedTo status)))) (\<lambda>_.
      sbind (announce_achievements env user_id) (\<lambda>_.
        redisplay env anime_id))))))"

text \<open>
  The number of episodes of an anime, \<open>anime.get('episodes')\<close>: \<open>None\<close> or an \<open>int\<close> (what the
  cache holds); a count of another type is not modelled.
\<close>

definition episodes_of :: "json \<Rightarrow> int option outcome" where
  "episodes_of anime =
     obind (py_get anime ''episodes'') (\<lambda>v.
       case v of JNull \<Rightarrow> Ret None | JInt n \<Rightarrow> Ret (Some n) | _ \<Rightarrow> Unmodelled)"

text \<open>The three actions on the progress: \<open>up\<close>, \<open>down\<close>, or a value.\<close>

definition new_progress_of :: "string \<Rightarrow> int \<Rightarrow> int option \<Rightarrow> int outcome" where
  "new_progress_of action current_progress episodes =
     (if action = ''up'' then
        Ret (min (current_progress + 1)
               (case episodes of
                  Some e \<Rightarrow> if e \<noteq> 0 then e else current_progress + 1
                | None \<Rightarrow> current_progress + 1))
      else if action = ''down'' then Ret (max (current_progress - 1) 0)
      else py_int action)"

text \<open>
  The branch of \<open>progress_\<close> with an action: the record is rewritten with the new progress
  under its current status (\<open>watching\<close> when there is no record); when the count of episodes
  is known and reached, it is rewritten again as \<open>completed\<close> with the count as progress.
\<close>

definition progress_update :: "env \<Rightarrow> int \<Rightarrow> int \<Rightarrow> string \<Rightarrow> st \<Rightarrow> unit outcome \<times> st" where
  "progress_update env user_id anime_id action =
     sbind (read_db (get_watch_status user_id anime_id)) (\<lambda>watch_status.
     let current_status = (case watch_status of Some w \<Rightarrow> w_status w | None \<Rightarrow> ''watching'');
         current_progress = (case watch_status of Some w \<Rightarrow> w_progress w | None \<Rightarrow> 0)
     in
     sbind (on_db (get_anime_by_id env anime_id)) (\<lambda>anime.
     sbind (lift (episodes_of anime)) (\<lambda>episodes.
     sbind (lift (new_progress_of action current_progress episodes)) (\<lambda>new_progress.
     sbind (on_db (update_watchlist (e_now env) user_id anime_id current_status None
                     (Some new_progress))) (\<lambda>_.
     sbind (case episodes of
              Some e \<Rightarrow>
                if e \<noteq> 0 \<and> e \<le> new_progress then
                  sbind (on_db (update_watchlist (e_now env) user_id anime_id ''completed'' None
                                  (Some e))) (\<lambda>_.
                    emit env (Answer (Some (MsgProgressCompleted new_progress e))))
                else emit env (Answer (Some (MsgProgress new_progress
                             (if e \<noteq> 0 then Some e else None))))
            | None \<Rightarrow> emit env (Answer (Some (MsgProgress new_progress None)))) (\<lambda>_.
     sbind (announce_achievements env user_id) (\<lambda>_.
       emit_or_pass env
         (EditReplyMarkup (create_progress_keyboard anime_id new_progress episodes)))))))))"

text \<open>The branch of \<open>progress_\<close> with the id alone shows the editor.\<close>

definition progress_show :: "env \<Rightarrow> int \<Rightarrow> int \<Rightarrow> st \<Rightarrow> unit outcome \<times> st" where
  "progress_show env user_id anime_id =
     sbind (on_db (get_anime_by_id env anime_id)) (\<lambda>anime.
     sbind (read_db (get_watch_status user_id anime_id)) (\<lambda>watch_status.
     let current_progress = (case watch_status of Some w \<Rightarrow> w_progress w | None \<Rightarrow> 0) in
     sbind (lift (episodes_of anime)) (\<lambda>episodes.
       emit env (ReplyText MsgProgressEditor
               (Some (create_progress_keyboard anime_id current_progress episodes))))))"

definition bh_progress :: "env \<Rightarrow> int \<Rightarrow> string \<Rightarrow> st \<Rightarrow> unit outcome \<times> st" where
  "bh_progress env user_id data =
     (let parts = py_split data in
      sbind (lift (obind (py_index parts 1) py_int)) (\<lambda>anime_id.
        if length parts = 2 then progress_show env user_id anime_id
        else progress_update env user_id anime_id (parts ! 2)))"

text \<open>
  The branch of \<open>profile_recommendations\<close> reads every item of what
  \<open>get_personal_recommendations\<close> returned with \<open>anime.get("title", ...)\<close>; an empty list is
  answered by a message, and the rendering of the items is not modelled.
\<close>

definition bh_recommendations :: "env \<Rightarrow> int \<Rightarrow> st \<Rightarrow> unit outcome \<times> st" where
  "bh_recommendations env user_id =
     sbind (emit env (EditText MsgLoadingRecommendations None)) (\<lambda>_.
     sbind (on_db (get_personal_recommendations env user_id 5)) (\<lambda>recommendations.
       case recommendations of
         RecList [] \<Rightarrow>
           emit env (EditText MsgNoRecommendations (Some [[Button LBack ''profile_main'']]))
       | RecList (x # xs) \<Rightarrow>
           sbind (lift (py_get_d x ''title'' (JStr ''Titre inconnu''))) (\<lambda>_ s. (Unmodelled, s))
       | RecPair anime_list last_page \<Rightarrow>
           sbind (lift (py_get_d anime_list ''title'' (JStr ''Titre inconnu'')))
             (\<lambda>_ s. (Unmodelled, s))))"

text \<open>
  \<open>button_handler\<close>: the query is answered, the user is registered, and the branch of the
  callback data runs. The branches that only load and render are not modelled; data that
  no test of the chain accepts runs no branch.
\<close>

definition button_handler :: "env \<Rightarrow> tg_user \<Rightarrow> string \<Rightarrow> st \<Rightarrow> unit outcome \<times> st" where
  "button_handler env user data =
     sbind (emit env (Answer None)) (\<lambda>_.
     sbind (on_db (add_user (e_now env) user)) (\<lambda>_.
       case route data of
         BrPage \<Rightarrow> bh_page env data
       | BrTop \<Rightarrow> bh_top env data
       | BrFav \<Rightarrow> bh_fav env (tg_id user) data
       | BrWatch \<Rightarrow> bh_watch env (tg_id user) data
       | BrProgress \<Rightarrow> bh_progress env (tg_id user) data
       | BrProfileMain \<Rightarrow> emit env (EditText MsgProfile (Some create_profile_keyboard))
       | BrProfileWatchlist \<Rightarrow> emit env (EditText MsgWatchlistMenu (Some create_watchlist_keyboard))
       | BrProfileRecommendations \<Rightarrow> bh_recommendations env (tg_id user)
       | BrProfileBack \<Rightarrow> emit env (EditText MsgProfile (Some create_profile_keyboard))
       | BrNoop \<Rightarrow> lift (Ret ())
       | BrNone \<Rightarrow> lift (Ret ())
       | _ \<Rightarrow> (\<lambda>s. (Unmodelled, s))))"

section \<open>Concrete worlds and states\<close>

text \<open>
  An anime as the catalog returns it: besides the fields that the cache keeps, it has a
  season and a trailer, and each genre has an id.
\<close>

definition example_anime :: json where
  "example_anime = JObj
     [(''mal_id'', JInt 42),
      (''title'', JStr ''Example''),
      (''title_japanese'', JNull),
      (''title_english'', JStr ''Example''),
      (''images'', JObj [(''jpg'', JObj [(''image_url'', JStr ''small.jpg''),
                                         (''large_image_url'', JStr ''large.jpg'')])]),
      (''trailer'', JObj [(''url'', JStr ''https://trailer'')]),
      (''synopsis'', JStr ''A story.''),
      (''score'', JFloat 17 (- 1)),
      (''episodes'', JInt 12),
      (''status'', JStr ''Finished Airing''),
      (''year'', JInt 2020),
      (''season'', JStr ''fall''),
      (''genres'', JList [JObj [(''mal_id'', JInt 1), (''name'', JStr ''Action'')],
                          JObj [(''mal_id'', JInt 2), (''name'', JStr ''Drama'')]]),
      (''studios'', JList [JObj [(''mal_id'', JInt 5), (''name'', JStr ''Studio'')]]),
      (''producers'', JList []),
      (''duration'', JStr ''24 min''),
      (''rating'', JStr ''PG-13''),
      (''source'', JStr ''Manga'')]"

text \<open>An anime with ten genres.\<close>

definition genre_rich_anime :: json where
  "genre_rich_anime = JObj
     [(''mal_id'', JInt 42),
      (''title'', JStr ''Example''),
      (''genres'', JList (map (\<lambda>g. JObj [(''name'', JStr g)])
         [''Action'', ''Adventure'', ''Comedy'', ''Drama'', ''Fantasy'', ''Horror'',
          ''Mystery'', ''Romance'', ''Sci-Fi'', ''Sports'']))]"

definition ok_response :: "json \<Rightarrow> response outcome" where
  "ok_response body = Ret \<lparr>r_status = 200, r_json = Ret body\<rparr>"

text \<open>
  The catalog cannot be reached: every request raises a \<open>requests\<close> exception. In this
  world and the following ones the transport accepts every call.
\<close>

definition env_down :: env where
  "env_down = \<lparr>e_http = (\<lambda>req. Raise RequestError), e_now = 9,
              e_set_order = remdups, e_unescape = (\<lambda>s. s), e_send = (\<lambda>sent x. None)\<rparr>"

text \<open>The catalog answers every request with status 404.\<close>

definition env_not_found :: env where
  "env_not_found = \<lparr>e_http = (\<lambda>req. Ret \<lparr>r_status = 404, r_json = Ret (JObj [])\<rparr>),
                   e_now = 9, e_set_order = remdups, e_unescape = (\<lambda>s. s), e_send = (\<lambda>sent x. None)\<rparr>"

text \<open>The catalog answers every request with status 200 and the body \<open>[]\<close>.\<close>

definition env_wrong_shape :: env where
  "env_wrong_shape = \<lparr>e_http = (\<lambda>req. ok_response (JList [])), e_now = 9,
                     e_set_order = remdups, e_unescape = (\<lambda>s. s), e_send = (\<lambda>sent x. None)\<rparr>"

text \<open>The catalog answers every request with status 200 and the body \<open>{}\<close>.\<close>

definition env_no_data :: env where
  "env_no_data = \<lparr>e_http = (\<lambda>req. ok_response (JObj [])), e_now = 9,
                 e_set_order = remdups, e_unescape = (\<lambda>s. s), e_send = (\<lambda>sent x. None)\<rparr>"

text \<open>The catalog knows the anime 42 and a top list of two.\<close>

definition env_catalog :: "json \<Rightarrow> env" where
  "env_catalog anime =
     \<lparr>e_http = (\<lambda>req. case req of
          GetAnime i \<Rightarrow>
            if i = 42 then ok_response (JObj [(''data'', anime)])
            else Ret \<lparr>r_status = 404, r_json = Ret (JObj [])\<rparr>
        | GetTop f p l \<Rightarrow>
            ok_response (JObj [(''data'', JList [anime, JObj [(''mal_id'', JInt 43),
                                                            (''title'', JStr ''Other'')]]),
                               (''pagination'', JObj [(''last_visible_page'', JInt 3)])])
        | _ \<Rightarrow> Ret \<lparr>r_status = 404, r_json = Ret (JObj [])\<rparr>),
      e_now = 9, e_set_order = remdups, e_unescape = (\<lambda>s. s), e_send = (\<lambda>sent x. None)\<rparr>"

definition example_user :: tg_user where
  "example_user = \<lparr>tg_id = 7, tg_username = Some ''ann'', tg_first_name = Some ''Ann'',
                   tg_last_name = None, tg_language_code = Some ''fr''\<rparr>"

text \<open>A store in which user 7 follows the anime 42: score 8 and progress 5, written at time 4.\<close>

definition db_rated :: db where
  "db_rated = snd (update_watchlist 4 7 42 ''watching'' (Some 8) (Some 5) empty_db)"

text \<open>A store in which user 7 has the anime 42 as a favorite.\<close>

definition db_favorite :: db where
  "db_favorite = snd (add_to_favorites 4 7 42 empty_db)"

text \<open>A store in which the anime 42 is cached and user 7 has seen 5 of its 12 episodes.\<close>

definition db_watching :: db where
  "db_watching =
     snd (update_watchlist 4 7 42 ''watching'' None (Some 5)
            (snd (cache_anime 3 example_anime empty_db)))"

definition st_of :: "db \<Rightarrow> (string \<times> json) list \<Rightarrow> st" where
  "st_of d session = \<lparr>s_db = d, s_session = session, s_out = []\<rparr>"

text \<open>A session that holds six results of the search for \<open>naruto\<close>.\<close>

definition six_results :: json where
  "six_results = JList (map (\<lambda>i. JObj [(''mal_id'', JInt i), (''title'', JStr ''Naruto'')])
                         [1, 2, 3, 4, 5, 6])"

definition session_naruto :: "(string \<times> json) list" where
  "session_naruto = [(''search_results_naruto'', six_results)]"

text \<open>A store in which user 7 has the twenty favorites 1 to 20.\<close>

definition db_twenty :: db where
  "db_twenty = fold (\<lambda>i d. snd (add_to_favorites 4 7 i d)) [1 ..  20] empty_db"

section \<open>Notions used in the statements\<close>

text \<open>
  A request fails in one of the ways that the client recovers from: \<open>requests.get\<close> raises
  an exception of the \<open>requests\<close> hierarchy, or the status is not 200, or decoding the body
  raises an exception of that hierarchy (as \<open>r.json()\<close> does from version 2.27 on).
\<close>

definition unavailable :: "response outcome \<Rightarrow> bool" where
  "unavailable r =
     (case r of
        Raise e \<Rightarrow> e = RequestError
      | Ret resp \<Rightarrow> r_status resp \<noteq> 200 \<or> r_json resp = Raise RequestError
      | Unmodelled \<Rightarrow> False)"

text \<open>
  The answer has status 200 and its body decodes to a JSON object in which \<open>data\<close> is
  absent or false (\<open>None\<close>, \<open>[]\<close>, \<open>{}\<close>, \<open>0\<close>, the empty string, \<open>False\<close>). For the top list the
  client also reads \<open>pagination\<close>: it is absent or an object.
\<close>

definition no_data :: "response outcome \<Rightarrow> bool" where
  "no_data r =
     (case r of
        Ret resp \<Rightarrow>
          r_status resp = 200 \<and>
          (case r_json resp of
             Ret (JObj kvs) \<Rightarrow> (case map_of kvs ''data'' of None \<Rightarrow> True | Some v \<Rightarrow> \<not> truthy v)
           | _ \<Rightarrow> False)
      | _ \<Rightarrow> False)"

definition no_top_data :: "response outcome \<Rightarrow> bool" where
  "no_top_data r =
     (no_data r \<and>
      (case r of
         Ret resp \<Rightarrow>
           (case r_json resp of
              Ret (JObj kvs) \<Rightarrow>
                (case map_of kvs ''pagination'' of
                   None \<Rightarrow> True
                 | Some (JObj p) \<Rightarrow> True
                 | Some _ \<Rightarrow> False)
            | _ \<Rightarrow> False)
       | _ \<Rightarrow> False))"

text \<open>
  The keys whose values the cache stores as they are, and what a \<open>REAL\<close> column makes of the
  score: an \<open>int\<close> comes back as the float of the same value.
\<close>

definition kept_keys :: "string list" where
  "kept_keys = [''title'', ''title_japanese'', ''title_english'', ''synopsis'', ''episodes'',
                ''status'', ''year'', ''duration'', ''rating'', ''source'']"

definition as_float :: "json \<Rightarrow> json" where
  "as_float v = (case v of JInt n \<Rightarrow> JFloat n 0 | _ \<Rightarrow> v)"

text \<open>
  The part of the store that the cache does not touch, and the programs that leave a
  projection of the store as it is.
\<close>

definition records :: "db \<Rightarrow> (int \<times> user_row) list \<times> ((int \<times> int) \<times> nat) list \<times> ((int \<times> int) \<times> watch_row) list" where
  "records d = (t_users d, t_favorites d, t_watchlists d)"

definition keeps :: "(db \<Rightarrow> 'b) \<Rightarrow> (db \<Rightarrow> 'a outcome \<times> db) \<Rightarrow> bool" where
  "keeps g m = (\<forall>d. g (snd (m d)) = g d)"

definition keeps_st :: "(db \<Rightarrow> 'b) \<Rightarrow> (st \<Rightarrow> 'a outcome \<times> st) \<Rightarrow> bool" where
  "keeps_st g m = (\<forall>s. g (s_db (snd (m s))) = g (s_db s))"

definition besides_cache :: "(db \<Rightarrow> 'b) \<Rightarrow> bool" where
  "besides_cache g =
     (\<forall>d c1 c2. g (d\<lparr>t_anime_cache := c1\<rparr>) = g d \<and> g (d\<lparr>t_character_cache := c2\<rparr>) = g d)"

text \<open>
  The position of the first occurrence of a name in a sequence, and the names of a sequence
  in the order of their first occurrence.
\<close>

fun first_index :: "'a list \<Rightarrow> 'a \<Rightarrow> nat" where
  "first_index [] g = 0"
| "first_index (x # xs) g = (if x = g then 0 else Suc (first_index xs g))"

fun first_occ :: "'a list \<Rightarrow> 'a list" where
  "first_occ [] = []"
| "first_occ (x # xs) = x # filter (\<lambda>y. y \<noteq> x) (first_occ xs)"

text \<open>
  One genre ranks before another: it is more frequent, or as frequent and seen first.
\<close>

definition ranks_before :: "string list \<Rightarrow> string \<times> nat \<Rightarrow> string \<times> nat \<Rightarrow> bool" where
  "ranks_before names a b =
     (snd b < snd a \<or> (snd a = snd b \<and> first_index names (fst a) < first_index names (fst b)))"

section \<open>Text utilities\<close>

text \<open>
  A Python \<open>str\<close> is a sequence of Unicode code points; a title is modelled as the list
  of its code points. \<open>str.lower\<close> and the regular-expression class \<open>\s\<close> are
  functions of Python's Unicode tables: they are parameters of \<open>create_slug\<close>
  (\<open>lower\<close> maps a whole string, since lowering may change the length; \<open>sp\<close> tells
  which code points are white space).
\<close>

type_synonym ustr = "nat list"

definition is_hyphen :: "nat \<Rightarrow> bool" where
  "is_hyphen c = (c = 45)"

text \<open>The class \<open>[a-z0-9\-]\<close>: code points 97..122, 48..57 and 45.\<close>

definition is_slug_char :: "nat \<Rightarrow> bool" where
  "is_slug_char c = ((97 \<le> c \<and> c \<le> 122) \<or> (48 \<le> c \<and> c \<le> 57) \<or> c = 45)"

text \<open>
  \<open>re.sub(P+, '-', s)\<close> for a character class \<open>P\<close>: scanning from the left, every maximal
  run of code points in \<open>P\<close> is replaced by one hyphen.
\<close>

fun sub_runs :: "(nat \<Rightarrow> bool) \<Rightarrow> bool \<Rightarrow> ustr \<Rightarrow> ustr" where
  "sub_runs P in_run [] = []"
| "sub_runs P in_run (c # cs) =
     (if P c then (if in_run then sub_runs P True cs else 45 # sub_runs P True cs)
      else c # sub_runs P False cs)"

definition re_sub_runs :: "(nat \<Rightarrow> bool) \<Rightarrow> ustr \<Rightarrow> ustr" where
  "re_sub_runs P s = sub_runs P False s"

text \<open>\<open>s.strip('-')\<close>: hyphens are removed from both ends.\<close>

definition strip_hyphens :: "ustr \<Rightarrow> ustr" where
  "strip_hyphens s = rev (dropWhile is_hyphen (rev (dropWhile is_hyphen s)))"

text \<open>
  \<open>create_slug\<close>, line by line: lower the title, replace white-space runs by a hyphen, delete
  every code point outside \<open>[a-z0-9\-]\<close>, collapse hyphen runs, strip hyphens at both ends.
\<close>

definition create_slug :: "(ustr \<Rightarrow> ustr) \<Rightarrow> (nat \<Rightarrow> bool) \<Rightarrow> ustr \<Rightarrow> ustr" where
  "create_slug lower sp title =
     (let slug = lower title;
          slug = re_sub_runs sp slug;
          slug = filter is_slug_char slug;
          slug = re_sub_runs is_hyphen slug
      in strip_hyphens slug)"

text \<open>The three properties of a slug, as executable predicates.\<close>

fun starts_with_hyphen :: "ustr \<Rightarrow> bool" where
  "starts_with_hyphen [] = False"
| "starts_with_hyphen (c # cs) = is_hyphen c"

definition ends_with_hyphen :: "ustr \<Rightarrow> bool" where
  "ends_with_hyphen s = starts_with_hyphen (rev s)"

fun has_double_hyphen :: "ustr \<Rightarrow> bool" where
  "has_double_hyphen (a # b # cs) = ((is_hyphen a \<and> is_hyphen b) \<or> has_double_hyphen (b # cs))"
| "has_double_hyphen _ = False"

text \<open>Python's \<open>str.lower\<close> and \<open>\s\<close> on the ASCII range, for concrete evaluation.\<close>

definition ascii_lower :: "ustr \<Rightarrow> ustr" where
  "ascii_lower s = map (\<lambda>c. if 65 \<le> c \<and> c \<le> 90 then c + 32 else c) s"

definition ascii_space :: "nat \<Rightarrow> bool" where
  "ascii_space c = (c = 32 \<or> (9 \<le> c \<and> c \<le> 13))"

section \<open>Sequencing\<close>

lemma obind_simps [simp]:
  "obind (Ret x) f = f x"
  "obind (Raise e) f = Raise e"
  "obind Unmodelled f = Unmodelled"
  by (simp_all add: obind_def)

lemma sbind_simps [simp]:
  "m s = (Ret x, s') \<Longrightarrow> sbind m f s = f x s'"
  "m s = (Raise e, s') \<Longrightarrow> sbind m f s = (Raise e, s')"
  "m s = (Unmodelled, s') \<Longrightarrow> sbind m f s = (Unmodelled, s')"
  by (simp_all add: sbind_def)

lemma lift_apply [simp]: "lift m s = (m, s)"
  by (simp add: lift_def)

lemma sbind_lift [simp]:
  "sbind (lift (Ret x)) f s = f x s"
  "sbind (lift (Raise e)) f s = (Raise e, s)"
  "sbind (lift Unmodelled) f s = (Unmodelled, s)"
  by (simp_all add: sbind_def)

lemma except_request_simps [simp]:
  "except_request dflt (Ret x, d) = (Ret x, d)"
  "except_request dflt (Raise e, d) = (if e = RequestError then (Ret dflt, d) else (Raise e, d))"
  "except_request dflt (Unmodelled, d) = (Unmodelled, d)"
  by (simp_all add: except_request_def)

lemma map_of_insert_or_replace [simp]: "map_of (insert_or_replace k v tbl) k = Some v"
  by (induction tbl) (auto simp: insert_or_replace_def)

section \<open>What the cache and the achievements leave as it is\<close>

lemma keepsI: "(\<And>d. g (snd (m d)) = g d) \<Longrightarrow> keeps g m"
  by (simp add: keeps_def)

lemma keepsD: "keeps g m \<Longrightarrow> g (snd (m d)) = g d"
  by (simp add: keeps_def)

lemma keepsD2: "keeps g m \<Longrightarrow> m d = (r, d') \<Longrightarrow> g d' = g d"
  by (metis keepsD snd_conv)

lemma keeps_lift [intro!, simp]: "keeps g (lift m)"
  by (simp add: keeps_def)

lemma keeps_read [intro!, simp]: "keeps g (\<lambda>d. (f d, d))"
  by (simp add: keeps_def)

lemma keeps_sbind [intro!]:
  assumes "keeps g m" and "\<And>x. keeps g (f x)"
  shows "keeps g (sbind m f)"
proof (rule keepsI)
  fix d
  obtain r d1 where m: "m d = (r, d1)" by (cases "m d")
  have g1: "g d1 = g d" using assms(1) m by (rule keepsD2)
  show "g (snd (sbind m f d)) = g d"
  proof (cases r)
    case (Ret x)
    then have "sbind m f d = f x d1" using m by (simp add: sbind_def)
    then show ?thesis using keepsD [OF assms(2), of x d1] g1 by simp
  next
    case (Raise e)
    then show ?thesis using m g1 by (simp add: sbind_def)
  next
    case Unmodelled
    then show ?thesis using m g1 by (simp add: sbind_def)
  qed
qed

lemma keeps_if [intro!]: "keeps g m \<Longrightarrow> keeps g n \<Longrightarrow> keeps g (if b then m else n)"
  by simp

lemma keeps_except [intro!]:
  assumes "keeps g m"
  shows "keeps g (\<lambda>d. except_request dflt (m d))"
proof (rule keepsI)
  fix d
  obtain r d1 where m: "m d = (r, d1)" by (cases "m d")
  have "g d1 = g d" using assms m by (rule keepsD2)
  then show "g (snd (except_request dflt (m d))) = g d"
    by (cases r) (simp_all add: m)
qed

lemma keeps_for_each [intro!]:
  assumes "\<And>x. keeps g (f x)"
  shows "keeps g (for_each f xs)"
proof (induction xs)
  case Nil
  show ?case by (simp add: keeps_def)
next
  case (Cons x xs)
  have "for_each f (x # xs) = sbind (f x) (\<lambda>_. for_each f xs)"
    by (rule ext) simp
  then show ?case using assms Cons by (simp only:) (intro keeps_sbind)
qed

lemma for_each_Nil_fun: "for_each f [] = (\<lambda>s. (Ret (), s))"
  by (rule ext) simp

lemma keeps_cache_anime [intro!, simp]: "besides_cache g \<Longrightarrow> keeps g (cache_anime now a)"
  by (auto simp: keeps_def besides_cache_def cache_anime_def split: outcome.splits)

lemma keeps_cache_character [intro!, simp]:
  "besides_cache g \<Longrightarrow> keeps g (cache_character now a)"
  by (auto simp: keeps_def besides_cache_def cache_character_def split: outcome.splits)

lemma keeps_cache_each [intro!]:
  "(\<And>now a. keeps g (cache now a)) \<Longrightarrow> keeps g (cache_each cache env v)"
  unfolding cache_each_def by (intro keeps_sbind keeps_lift keeps_for_each)

lemma keeps_fetch_list [intro!]:
  "(\<And>now a. keeps g (cache now a)) \<Longrightarrow> keeps g (fetch_list cache env req dflt)"
  unfolding fetch_list_def by (intro keeps_except keeps_sbind keeps_lift keeps_if keeps_cache_each)

lemma keeps_fetch_one [intro!]:
  "(\<And>now a. keeps g (cache now a)) \<Longrightarrow> keeps g (fetch_one cache env req)"
  unfolding fetch_one_def by (intro keeps_except keeps_sbind keeps_lift keeps_if) auto

lemma keeps_fetch_plain [intro!, simp]: "keeps g (fetch_plain env req)"
  unfolding fetch_plain_def by (intro keeps_except keeps_sbind keeps_lift keeps_if)

lemma keeps_get_top_anime [intro!, simp]:
  "besides_cache g \<Longrightarrow> keeps g (get_top_anime env f p l)"
  unfolding get_top_anime_def
  by (intro keeps_except keeps_sbind keeps_lift keeps_if keeps_cache_each keeps_cache_anime)

lemma keeps_get_anime_by_id [intro!, simp]:
  "besides_cache g \<Longrightarrow> keeps g (get_anime_by_id env i)"
  unfolding get_anime_by_id_def
  by (intro keeps_sbind keeps_read keeps_if keeps_lift keeps_fetch_one keeps_cache_anime)

lemma keeps_resolve_anime [intro!, simp]:
  "besides_cache g \<Longrightarrow> keeps g (resolve_anime env i)"
  unfolding resolve_anime_def
  by (intro keeps_sbind keeps_read keeps_if keeps_lift keeps_get_anime_by_id)

lemma keeps_collect [intro!, simp]:
  "besides_cache g \<Longrightarrow> keeps g (collect env f ids)"
proof (induction ids)
  case Nil
  show ?case by (simp add: keeps_def)
next
  case (Cons i ids)
  have "collect env f (i # ids) =
          sbind (resolve_anime env i) (\<lambda>anime.
          sbind (lift (f anime)) (\<lambda>ys.
          sbind (collect env f ids) (\<lambda>zs. lift (Ret (ys @ zs)))))"
    by (rule ext) simp
  then show ?case using Cons
    by (simp only:) (intro keeps_sbind keeps_lift keeps_resolve_anime; simp)
qed

lemma keeps_check_genre_variety [intro!, simp]:
  "besides_cache g \<Longrightarrow> keeps g (check_genre_variety env u)"
  unfolding check_genre_variety_def by (intro keeps_sbind keeps_read keeps_lift keeps_collect)

lemma keeps_check_season_variety [intro!, simp]:
  "besides_cache g \<Longrightarrow> keeps g (check_season_variety env u)"
  unfolding check_season_variety_def by (intro keeps_sbind keeps_read keeps_lift keeps_collect)

lemma besides_cache_records [simp]: "besides_cache records"
  by (simp add: besides_cache_def records_def)

lemma besides_cache_achievements [simp]: "besides_cache t_achievements"
  by (simp add: besides_cache_def)

lemma besides_cache_watchlists [simp]: "besides_cache t_watchlists"
  by (simp add: besides_cache_def)

text \<open>The conditions of the registry leave the records and the achievements as they are.\<close>

lemma keeps_conditions:
  assumes "besides_cache g" and "(ty, name, cond) \<in> set ACHIEVEMENTS"
  shows "keeps g (cond env u)"
proof -
  have 1: "keeps g (cond_anime_explorer env u)" by (simp add: keeps_def cond_anime_explorer_def)
  have 2: "keeps g (cond_genre_master env u)"
    unfolding cond_genre_master_def using assms(1)
    by (intro keeps_sbind keeps_lift keeps_check_genre_variety)
  have 3: "keeps g (cond_season_watcher env u)"
    unfolding cond_season_watcher_def using assms(1)
    by (intro keeps_sbind keeps_lift keeps_check_season_variety)
  have 4: "keeps g (cond_anime_lover env u)" by (simp add: keeps_def cond_anime_lover_def)
  have 5: "keeps g (cond_completionist env u)" by (simp add: keeps_def cond_completionist_def)
  from assms(2) 1 2 3 4 5 show ?thesis by (auto simp: ACHIEVEMENTS_def)
qed

lemma keeps_add_achievement [simp]: "keeps records (add_achievement now u ty name)"
  by (simp add: keeps_def add_achievement_def records_def)

lemma keeps_grant_loop:
  assumes "\<And>ty name cond. (ty, name, cond) \<in> set entries \<Longrightarrow> keeps records (cond env u)"
  shows "keeps records (grant_loop env u entries acc)"
  using assms
proof (induction entries arbitrary: acc)
  case Nil
  show ?case by (simp add: keeps_def)
next
  case (Cons entry entries)
  obtain ty name cond where e: "entry = (ty, name, cond)" by (cases entry)
  have c: "keeps records (cond env u)" using Cons.prems [of ty name cond] e by simp
  have r: "keeps records (grant_loop env u entries acc')" for acc'
  proof (rule Cons.IH)
    fix ty' name' cond'
    assume "(ty', name', cond') \<in> set entries"
    then show "keeps records (cond' env u)" using Cons.prems [of ty' name' cond'] by simp
  qed
  have "grant_loop env u (entry # entries) acc =
          sbind (cond env u) (\<lambda>holds.
            if holds then
              sbind (add_achievement (e_now env) u ty name) (\<lambda>added.
                grant_loop env u entries (if added then acc @ [name] else acc))
            else grant_loop env u entries acc)"
    unfolding e by (rule ext) simp
  then show ?case using c r
    by (simp only:) (intro keeps_sbind keeps_if keeps_add_achievement; simp)
qed

lemma keeps_check_achievements [simp]: "keeps records (check_achievements env u)"
  unfolding check_achievements_def
  by (rule keeps_grant_loop) (rule keeps_conditions, simp_all)

section \<open>Partial updates of a watch record\<close>

text \<open>
  C1. The claim asks that an update which omits the score or the progress keeps the stored
  value. \<open>update_watchlist\<close> replaces the row: on a record of user 7 with score 8 and
  progress 5, an update of the status alone leaves no score and progress 0, and an update
  of the progress alone leaves no score.
\<close>

theorem update_watchlist_replaces_row:
  "get_watch_status 7 42 db_rated =
     Ret (Some \<lparr>w_status = ''watching'', w_score = Some 8, w_progress = 5,
                w_added_at = 4, w_updated_at = 4\<rparr>) \<and>
   get_watch_status 7 42 (snd (update_watchlist 9 7 42 ''completed'' None None db_rated)) =
     Ret (Some \<lparr>w_status = ''completed'', w_score = None, w_progress = 0,
                w_added_at = 9, w_updated_at = 9\<rparr>) \<and>
   get_watch_status 7 42 (snd (update_watchlist 9 7 42 ''watching'' None (Some 6) db_rated)) =
     Ret (Some \<lparr>w_status = ''watching'', w_score = None, w_progress = 6,
                w_added_at = 9, w_updated_at = 9\<rparr>)"
  by code_simp

theorem update_watchlist_replaces_row_witness:
  "get_watch_status 7 42 (snd (update_watchlist 9 7 42 ''completed'' None None db_rated)) =
     Ret (Some \<lparr>w_status = ''completed'', w_score = None, w_progress = 0,
                w_added_at = 9, w_updated_at = 9\<rparr>)"
  by (rule conjunct1 [OF conjunct2 [OF update_watchlist_replaces_row]])

section \<open>Recommendations for a user without favorites and watch records\<close>

text \<open>
  C2. The claim asks for the global top list as the result. For a user with no favorite and
  no watch record \<open>get_personal_recommendations\<close> returns what \<open>get_top_anime\<close> returns, the
  pair of the list and the number of the last page; the handler of
  \<open>profile_recommendations\<close>, which reads each item of the result as an anime, raises
  \<open>AttributeError\<close> on the list.
\<close>

theorem recommendations_fallback_returns_pair:
  "fst (get_personal_recommendations (env_catalog example_anime) 7 5 empty_db) =
     Ret (RecPair (JList [example_anime, JObj [(''mal_id'', JInt 43), (''title'', JStr ''Other'')]])
            (JInt 3)) \<and>
   fst (button_handler (env_catalog example_anime) example_user ''profile_recommendations''
          (st_of empty_db [])) = Raise AttributeError"
  by code_simp

theorem recommendations_fallback_returns_pair_witness:
  "fst (button_handler (env_catalog example_anime) example_user ''profile_recommendations''
          (st_of empty_db [])) = Raise AttributeError"
  by (rule conjunct2 [OF recommendations_fallback_returns_pair])

section \<open>Adjusting the progress\<close>

lemma keeps_stI: "(\<And>s. g (s_db (snd (m s))) = g (s_db s)) \<Longrightarrow> keeps_st g m"
  by (simp add: keeps_st_def)

lemma keeps_stD: "keeps_st g m \<Longrightarrow> g (s_db (snd (m s))) = g (s_db s)"
  by (simp add: keeps_st_def)

lemma keeps_st_emit [simp]: "keeps_st g (emit env x)"
  by (simp add: keeps_st_def emit_def split: option.splits)

lemma keeps_st_emit_or_pass [simp]: "keeps_st g (emit_or_pass env x)"
  by (simp add: keeps_st_def emit_or_pass_def split: option.splits)

lemma keeps_st_lift [simp]: "keeps_st g (lift m)"
  by (simp add: keeps_st_def)

lemma keeps_st_on_db: "keeps g m \<Longrightarrow> keeps_st g (on_db m)"
  by (auto simp: keeps_st_def keeps_def on_db_def split: prod.splits dest: keepsD2 [unfolded keeps_def])

lemma keeps_st_sbind:
  assumes "keeps_st g m" and "\<And>x. keeps_st g (f x)"
  shows "keeps_st g (sbind m f)"
proof (rule keeps_stI)
  fix s
  obtain r s1 where m: "m s = (r, s1)" by (cases "m s")
  have g1: "g (s_db s1) = g (s_db s)" using keeps_stD [OF assms(1), of s] m by simp
  show "g (s_db (snd (sbind m f s))) = g (s_db s)"
  proof (cases r)
    case (Ret x)
    then have "sbind m f s = f x s1" using m by (simp add: sbind_def)
    then show ?thesis using keeps_stD [OF assms(2), of x s1] g1 by simp
  next
    case (Raise e)
    then show ?thesis using m g1 by (simp add: sbind_def)
  next
    case Unmodelled
    then show ?thesis using m g1 by (simp add: sbind_def)
  qed
qed

lemma keeps_st_announce: "keeps_st records (announce_achievements env u)"
  unfolding announce_achievements_def
  by (intro keeps_st_sbind keeps_st_on_db keeps_check_achievements) simp

lemma records_watchlists: "records d' = records d \<Longrightarrow> t_watchlists d' = t_watchlists d"
  by (simp add: records_def)

lemma tail_keeps:
  "t_watchlists (s_db (snd (sbind (emit env x)
      (\<lambda>_. sbind (announce_achievements env u) (\<lambda>_. emit_or_pass env y)) s))) =
   t_watchlists (s_db s)"
proof -
  have "keeps_st records (sbind (emit env x)
          (\<lambda>_. sbind (announce_achievements env u) (\<lambda>_. emit_or_pass env y)))"
    by (intro keeps_st_sbind keeps_st_announce keeps_st_emit keeps_st_emit_or_pass)
  then show ?thesis by (intro records_watchlists keeps_stD)
qed

lemma update_watchlist_progress:
  assumes "int64_ok u" "int64_ok a" "int64_ok p" "status_ok status"
  shows "update_watchlist now u a status None (Some p) d =
           (Ret (), d\<lparr>t_watchlists := insert_or_replace (u, a)
              \<lparr>w_status = status, w_score = None, w_progress = p, w_added_at = now,
               w_updated_at = now\<rparr> (t_watchlists d)\<rparr>)"
  using assms by (simp add: update_watchlist_def score_ok_def)

lemma update_watchlist_overflow:
  assumes "int64_ok u" "int64_ok a" "\<not> int64_ok p"
  shows "update_watchlist now u a status None (Some p) d = (Raise OverflowError, d)"
  using assms by (simp add: update_watchlist_def)

lemma py_int_words: "py_int ''up'' = Raise ValueError" "py_int ''down'' = Raise ValueError"
  by code_simp+

lemma status_ok_words [simp]: "status_ok ''watching''" "status_ok ''completed''"
  by (simp_all add: status_ok_def)

text \<open>The watch list after \<open>progress_update\<close>, when the anime was loaded.\<close>

lemma progress_update_watchlists:
  assumes ids: "int64_ok u" "int64_ok a"
    and load: "on_db (get_anime_by_id env a) s = (Ret anime, s1)"
    and eps: "episodes_of anime = Ret episodes"
    and new: "new_progress_of action
                (case map_of (t_watchlists (s_db s)) (u, a) of Some w \<Rightarrow> w_progress w | None \<Rightarrow> 0)
                episodes = Ret p"
    and st: "status_ok
               (case map_of (t_watchlists (s_db s)) (u, a) of Some w \<Rightarrow> w_status w | None \<Rightarrow> ''watching'')"
    and e64: "case episodes of None \<Rightarrow> True | Some e \<Rightarrow> int64_ok e"
  shows "t_watchlists (s_db (snd (progress_update env u a action s))) =
     (let status = (case map_of (t_watchlists (s_db s)) (u, a) of Some w \<Rightarrow> w_status w | None \<Rightarrow> ''watching'');
          row = (\<lambda>st' p'. \<lparr>w_status = st', w_score = None, w_progress = p', w_added_at = e_now env,
                     w_updated_at = e_now env\<rparr>);
          once = insert_or_replace (u, a) (row status p) (t_watchlists (s_db s))
      in if \<not> int64_ok p then t_watchlists (s_db s)
         else case episodes of
             None \<Rightarrow> once
           | Some e \<Rightarrow> if e \<noteq> 0 \<and> e \<le> p then insert_or_replace (u, a) (row ''completed'' e) once
                       else once)"
proof -
  let ?W = "t_watchlists (s_db s)"
  let ?status = "case map_of ?W (u, a) of Some w \<Rightarrow> w_status w | None \<Rightarrow> ''watching''"
  let ?row = "\<lambda>st' p'. \<lparr>w_status = st', w_score = None, w_progress = p', w_added_at = e_now env,
                     w_updated_at = e_now env\<rparr>"
  let ?once = "insert_or_replace (u, a) (?row ?status p) ?W"
  let ?tail = "\<lambda>kb. sbind (announce_achievements env u) (\<lambda>_. emit_or_pass env kb)"
  obtain d1 where d1: "get_anime_by_id env a (s_db s) = (Ret anime, d1)" and s1: "s1 = s\<lparr>s_db := d1\<rparr>"
    using load by (auto simp: on_db_def split: prod.splits)
  have w1: "t_watchlists d1 = ?W"
    using keepsD2 [OF keeps_get_anime_by_id [OF besides_cache_watchlists] d1] .
  have rd: "read_db (get_watch_status u a) s = (Ret (map_of ?W (u, a)), s)"
    using ids by (simp add: read_db_def get_watch_status_def)
  let ?kb = "EditReplyMarkup (create_progress_keyboard a p episodes)"
  let ?second = "case episodes of
              Some e \<Rightarrow>
                if e \<noteq> 0 \<and> e \<le> p then
                  sbind (on_db (update_watchlist (e_now env) u a ''completed'' None (Some e))) (\<lambda>_.
                    emit env (Answer (Some (MsgProgressCompleted p e))))
                else emit env (Answer (Some (MsgProgress p (if e \<noteq> 0 then Some e else None))))
            | None \<Rightarrow> emit env (Answer (Some (MsgProgress p None)))"
  have pu: "progress_update env u a action s =
      sbind (on_db (update_watchlist (e_now env) u a ?status None (Some p))) (\<lambda>_.
        sbind ?second (\<lambda>_. ?tail ?kb)) s1"
    unfolding progress_update_def Let_def
    by (simp add: rd load eps new)
  show ?thesis
  proof (cases "int64_ok p")
    case False
    have "on_db (update_watchlist (e_now env) u a ?status None (Some p)) s1 = (Raise OverflowError, s1)"
      using update_watchlist_overflow [OF ids False] by (simp add: on_db_def s1)
    then have "snd (progress_update env u a action s) = s1" by (simp add: pu)
    then show ?thesis using False w1 by (simp add: s1)
  next
    case True
    let ?d2 = "d1\<lparr>t_watchlists := ?once\<rparr>"
    let ?s2 = "s\<lparr>s_db := ?d2\<rparr>"
    have u1: "on_db (update_watchlist (e_now env) u a ?status None (Some p)) s1 = (Ret (), ?s2)"
      using update_watchlist_progress [OF ids True st, of "e_now env" d1]
      by (simp add: on_db_def s1 w1)
    have fin: "snd (progress_update env u a action s) = snd (sbind ?second (\<lambda>_. ?tail ?kb) ?s2)"
      by (simp add: pu u1)
    have emit_case: "t_watchlists (s_db (snd (sbind (emit env x) (\<lambda>_. ?tail ?kb) ?s2))) = ?once"
      for x
      by (simp add: tail_keeps)
    show ?thesis
    proof (cases episodes)
      case None
      then show ?thesis using True emit_case by (simp add: fin)
    next
      case (Some e)
      show ?thesis
      proof (cases "e \<noteq> 0 \<and> e \<le> p")
        case no: False
        have "?second = emit env (Answer (Some (MsgProgress p (if e \<noteq> 0 then Some e else None))))"
          using no Some by (cases "e = 0") simp_all
        then have "t_watchlists (s_db (snd (sbind ?second (\<lambda>_. ?tail ?kb) ?s2))) = ?once"
          using emit_case by simp
        then show ?thesis using True Some no by (cases "e = 0") (simp_all add: fin)
      next
        case yes: True
        have e_ok: "int64_ok e" using e64 Some by simp
        let ?d3 = "?d2\<lparr>t_watchlists := insert_or_replace (u, a) (?row ''completed'' e) ?once\<rparr>"
        let ?s3 = "s\<lparr>s_db := ?d3\<rparr>"
        have u2: "on_db (update_watchlist (e_now env) u a ''completed'' None (Some e)) ?s2 = (Ret (), ?s3)"
          using update_watchlist_progress [OF ids e_ok status_ok_words(2), of "e_now env" ?d2]
          by (simp add: on_db_def)
        have "sbind ?second (\<lambda>_. ?tail ?kb) ?s2 =
                sbind (emit env (Answer (Some (MsgProgressCompleted p e)))) (\<lambda>_. ?tail ?kb) ?s3"
          using yes Some by (simp add: u2 sbind_def)
        then have "t_watchlists (s_db (snd (sbind ?second (\<lambda>_. ?tail ?kb) ?s2))) =
                     insert_or_replace (u, a) (?row ''completed'' e) ?once"
          by (simp add: tail_keeps)
        then show ?thesis using True Some yes by (simp add: fin)
      qed
    qed
  qed
qed


text \<open>
  C3 (amended). When the anime is loaded, the stored record (if any) has a progress of at
  least zero, and the action is an increment, a decrement or a jump to a value of at least
  zero: after the action the record exists, its progress is at least zero, and when the
  count of episodes is known (it is not zero) the progress is at most the count and equals
  it only with the status \<open>completed\<close>; an increment on a completed record whose progress is
  the count leaves its progress and status as they are.
\<close>

theorem progress_stays_in_range:
  assumes ids: "int64_ok u" "int64_ok a"
    and load: "on_db (get_anime_by_id env a) s = (Ret anime, s1)"
    and eps: "episodes_of anime = Ret episodes"
    and eps_ok: "case episodes of None \<Rightarrow> True | Some e \<Rightarrow> 0 \<le> e \<and> int64_ok e"
    and row_ok: "case map_of (t_watchlists (s_db s)) (u, a) of
                   None \<Rightarrow> True
                 | Some w \<Rightarrow> status_ok (w_status w) \<and> 0 \<le> w_progress w \<and> int64_ok (w_progress w)"
    and act: "action = ''up'' \<or> action = ''down'' \<or>
              (\<exists>n. py_int action = Ret n \<and> 0 \<le> n \<and> int64_ok n)"
  shows "\<exists>w. map_of (t_watchlists (s_db (snd (progress_update env u a action s)))) (u, a) = Some w \<and>
           0 \<le> w_progress w \<and>
           (case episodes of
              None \<Rightarrow> True
            | Some e \<Rightarrow> e = 0 \<or> (w_progress w \<le> e \<and> (w_progress w = e \<longrightarrow> w_status w = ''completed''))) \<and>
           (\<forall>w0 e. map_of (t_watchlists (s_db s)) (u, a) = Some w0 \<and> episodes = Some e \<and> e \<noteq> 0 \<and>
                   action = ''up'' \<and> w_progress w0 = e \<and> w_status w0 = ''completed'' \<longrightarrow>
                   w_progress w = w_progress w0 \<and> w_status w = w_status w0)"
proof -
  let ?W = "t_watchlists (s_db s)"
  let ?cur = "case map_of ?W (u, a) of Some w \<Rightarrow> w_progress w | None \<Rightarrow> 0"
  let ?status = "case map_of ?W (u, a) of Some w \<Rightarrow> w_status w | None \<Rightarrow> ''watching''"
  let ?row = "\<lambda>st' p'. \<lparr>w_status = st', w_score = None, w_progress = p', w_added_at = e_now env,
                     w_updated_at = e_now env\<rparr>"
  have cur: "0 \<le> ?cur" "int64_ok ?cur" and st: "status_ok ?status"
    using row_ok by (auto simp: int64_ok_def split: option.splits)
  have e64: "case episodes of None \<Rightarrow> True | Some e \<Rightarrow> int64_ok e"
    using eps_ok by (auto split: option.splits)
  obtain p where new: "new_progress_of action ?cur episodes = Ret p" and p0: "0 \<le> p"
    and up: "action = ''up'' \<Longrightarrow>
             p = min (?cur + 1) (case episodes of Some e \<Rightarrow> if e \<noteq> 0 then e else ?cur + 1
                                 | None \<Rightarrow> ?cur + 1)"
    and other: "action \<noteq> ''up'' \<Longrightarrow> int64_ok p"
  proof -
    consider (up) "action = ''up''" | (down) "action = ''down''"
      | (jump) n where "py_int action = Ret n" "0 \<le> n" "int64_ok n" "action \<noteq> ''up''"
          "action \<noteq> ''down''"
      using act py_int_words by auto
    then show ?thesis
    proof cases
      case up
      let ?p = "min (?cur + 1) (case episodes of Some e \<Rightarrow> if e \<noteq> 0 then e else ?cur + 1
                                 | None \<Rightarrow> ?cur + 1)"
      have "new_progress_of action ?cur episodes = Ret ?p" using up by (simp add: new_progress_of_def)
      moreover have "0 \<le> ?p" using cur(1) eps_ok by (auto split: option.splits)
      ultimately show ?thesis using that up by simp
    next
      case down
      have "new_progress_of action ?cur episodes = Ret (max (?cur - 1) 0)"
        using down by (simp add: new_progress_of_def)
      moreover have "int64_ok (max (?cur - 1) 0)" using cur by (simp add: int64_ok_def)
      ultimately show ?thesis using that down by simp
    next
      case jump
      have "new_progress_of action ?cur episodes = Ret n"
        using jump by (simp add: new_progress_of_def)
      then show ?thesis using that jump by simp
    qed
  qed
  note final = progress_update_watchlists [OF ids load eps new st e64]
  let ?F = "t_watchlists (s_db (snd (progress_update env u a action s)))"
  let ?once = "insert_or_replace (u, a) (?row ?status p) ?W"
  have known_ok: "int64_ok p" if "episodes = Some e" "e \<noteq> 0" for e
  proof (cases "action = ''up''")
    case True
    have "p \<le> e" using up [OF True] that by simp
    moreover have "int64_ok e" using eps_ok that by simp
    ultimately show ?thesis using p0 by (simp add: int64_ok_def)
  next
    case False
    then show ?thesis by (rule other)
  qed
  show ?thesis
  proof (cases "int64_ok p")
    case False
    have F: "?F = ?W" using final False by (simp add: Let_def)
    have isup: "action = ''up''" using False other by blast
    have unknown: "episodes = None \<or> episodes = Some 0"
      using False known_ok by (cases episodes) auto
    have "?cur \<noteq> 0" using False up [OF isup] unknown by (auto simp: int64_ok_def)
    then obtain w0 where w0: "map_of ?W (u, a) = Some w0" by (cases "map_of ?W (u, a)") auto
    have "0 \<le> w_progress w0" using row_ok w0 by simp
    then show ?thesis using F w0 unknown by auto
  next
    case ok: True
    show ?thesis
    proof (cases "\<exists>e. episodes = Some e \<and> e \<noteq> 0 \<and> e \<le> p")
      case True
      then obtain e where e: "episodes = Some e" "e \<noteq> 0" "e \<le> p" by blast
      have F: "?F = insert_or_replace (u, a) (?row ''completed'' e) ?once"
        using final ok e by (simp add: Let_def)
      have "map_of ?F (u, a) = Some (?row ''completed'' e)" by (simp add: F)
      moreover have "0 \<le> e" using eps_ok e by simp
      ultimately show ?thesis using e by auto
    next
      case False
      have F: "?F = ?once"
        using final ok False by (cases episodes) (auto simp: Let_def)
      have m: "map_of ?F (u, a) = Some (?row ?status p)" by (simp add: F)
      have lt: "p < e" if "episodes = Some e" "e \<noteq> 0" for e
        using False that by auto
      have noop: "\<not> (action = ''up'' \<and> ?cur = e)" if "episodes = Some e" "e \<noteq> 0" for e
      proof
        assume h: "action = ''up'' \<and> ?cur = e"
        then have "p = e" using up that by simp
        then show False using lt [OF that] by simp
      qed
      show ?thesis
      proof (intro exI conjI allI impI)
        show "map_of ?F (u, a) = Some (?row ?status p)" by (rule m)
        show "0 \<le> w_progress (?row ?status p)" using p0 by simp
        show "case episodes of None \<Rightarrow> True
              | Some e \<Rightarrow> e = 0 \<or> (w_progress (?row ?status p) \<le> e \<and>
                  (w_progress (?row ?status p) = e \<longrightarrow> w_status (?row ?status p) = ''completed''))"
          using lt by (cases episodes) auto
      next
        fix w0 e
        assume h: "map_of ?W (u, a) = Some w0 \<and> episodes = Some e \<and> e \<noteq> 0 \<and>
                   action = ''up'' \<and> w_progress w0 = e \<and> w_status w0 = ''completed''"
        then have False using noop [of e] by simp
        then show "w_progress (?row ?status p) = w_progress w0" by simp
      next
        fix w0 e
        assume h: "map_of ?W (u, a) = Some w0 \<and> episodes = Some e \<and> e \<noteq> 0 \<and>
                   action = ''up'' \<and> w_progress w0 = e \<and> w_status w0 = ''completed''"
        then have False using noop [of e] by simp
        then show "w_status (?row ?status p) = w_status w0" by simp
      qed
    qed
  qed
qed


text \<open>User 7 has seen 5 of the 12 episodes of the cached anime 42 and presses the increment.\<close>

theorem progress_stays_in_range_witness:
  "(\<exists>w. map_of (t_watchlists (s_db (snd (progress_update env_down 7 42 ''up''
             (st_of db_watching []))))) (7, 42) = Some w \<and>
        0 \<le> w_progress w \<and>
        (case Some 12 of
           None \<Rightarrow> True
         | Some e \<Rightarrow> e = 0 \<or> (w_progress w \<le> e \<and> (w_progress w = e \<longrightarrow> w_status w = ''completed''))) \<and>
        (\<forall>w0 e. map_of (t_watchlists (s_db (st_of db_watching []))) (7, 42) = Some w0 \<and>
                Some 12 = Some e \<and> e \<noteq> 0 \<and> ''up'' = ''up'' \<and> w_progress w0 = e \<and>
                w_status w0 = ''completed'' \<longrightarrow>
                w_progress w = w_progress w0 \<and> w_status w = w_status w0)) \<and>
   map_of (t_watchlists (s_db (snd (progress_update env_down 7 42 ''up''
             (st_of db_watching []))))) (7, 42) =
     Some \<lparr>w_status = ''watching'', w_score = None, w_progress = 6, w_added_at = 9,
           w_updated_at = 9\<rparr>"
proof -
  have ids: "int64_ok 7" "int64_ok 42" by (simp_all add: int64_ok_def)
  have load: "on_db (get_anime_by_id env_down 42) (st_of db_watching []) =
                (Ret (anime_of_row 42 (snd (hd (t_anime_cache db_watching)))), st_of db_watching [])"
    by code_simp
  have eps: "episodes_of (anime_of_row 42 (snd (hd (t_anime_cache db_watching)))) = Ret (Some 12)"
    by code_simp
  have eps_ok: "case Some (12::int) of None \<Rightarrow> True | Some e \<Rightarrow> 0 \<le> e \<and> int64_ok e"
    by (simp add: int64_ok_def)
  have row_ok: "case map_of (t_watchlists (s_db (st_of db_watching []))) (7, 42) of
                  None \<Rightarrow> True
                | Some w \<Rightarrow> status_ok (w_status w) \<and> 0 \<le> w_progress w \<and> int64_ok (w_progress w)"
    by code_simp
  have act: "''up'' = ''up'' \<or> ''up'' = ''down'' \<or>
             (\<exists>n. py_int ''up'' = Ret n \<and> 0 \<le> n \<and> int64_ok n)"
    by simp
  have val: "map_of (t_watchlists (s_db (snd (progress_update env_down 7 42 ''up''
                (st_of db_watching []))))) (7, 42) =
     Some \<lparr>w_status = ''watching'', w_score = None, w_progress = 6, w_added_at = 9,
           w_updated_at = 9\<rparr>"
    by code_simp
  show ?thesis
    using progress_stays_in_range [OF ids load eps eps_ok row_ok act] val by blast
qed

text \<open>
  The claim as stated fails for a jump to a negative value: with 12 episodes known, the
  data \<open>progress_42_-3\<close> leaves the progress \<open>-3\<close>.
\<close>

theorem negative_jump_counterexample:
  "obind (get_cached_anime 42 db_watching) episodes_of = Ret (Some 12) \<and>
   map_option w_progress
     (map_of (t_watchlists (s_db (snd (button_handler env_down example_user ''progress_42_-3''
        (st_of db_watching []))))) (7, 42)) = Some (- 3)"
  by code_simp

section \<open>Granting an achievement once\<close>

lemma add_achievement_facts:
  assumes "add_achievement now u ty name d = (Ret added, da)"
  shows "records da = records d"
    and "ach_count u ty' d \<le> ach_count u ty' da"
    and "0 < ach_count u ty da"
    and "added \<longleftrightarrow> ach_count u ty d = 0"
  using assms
  by (auto simp: add_achievement_def ach_count_def records_def split: if_splits)

lemma add_achievement_twice:
  assumes "int64_ok u"
  shows "add_achievement now' u ty name' (snd (add_achievement now u ty name d)) =
           (Ret False, snd (add_achievement now u ty name d))"
    and "ach_count u ty (snd (add_achievement now u ty name d)) =
           (if ach_count u ty d = 0 then 1 else ach_count u ty d)"
  using assms by (auto simp: add_achievement_def ach_count_def)

lemma grant_loop_spec:
  assumes conds: "\<And>ty name cond. (ty, name, cond) \<in> set entries \<Longrightarrow>
                    keeps records (cond env u) \<and> keeps t_achievements (cond env u)"
    and run: "grant_loop env u entries acc d = (Ret names, d')"
  shows "records d' = records d \<and>
         (\<forall>ty. ach_count u ty d \<le> ach_count u ty d') \<and>
         (\<exists>new. names = acc @ new \<and>
            (\<forall>name \<in> set new. \<exists>ty cond dk. (ty, name, cond) \<in> set entries \<and>
               ach_count u ty d = 0 \<and> 0 < ach_count u ty d' \<and>
               records dk = records d \<and> fst (cond env u dk) = Ret True)) \<and>
         (\<forall>ty name cond dk. (ty, name, cond) \<in> set entries \<and> records dk = records d \<and>
            fst (cond env u dk) = Ret True \<and>
            (\<forall>dk'. records dk' = records dk \<longrightarrow> fst (cond env u dk') = fst (cond env u dk))
            \<longrightarrow> 0 < ach_count u ty d')"
  using conds run
proof (induction entries arbitrary: acc d)
  case Nil
  then show ?case by simp
next
  case (Cons entry rest)
  obtain ty name cond where e: "entry = (ty, name, cond)" by (cases entry)
  have kc: "keeps records (cond env u)" "keeps t_achievements (cond env u)"
    using Cons.prems(1) [of ty name cond] e by simp_all
  have rest_conds: "keeps records (c env u) \<and> keeps t_achievements (c env u)"
    if "(t, n, c) \<in> set rest" for t n c
    using Cons.prems(1) [of t n c] that by simp
  from Cons.prems(2) obtain holds dc where c: "cond env u d = (Ret holds, dc)"
    and after: "(if holds then
                   sbind (add_achievement (e_now env) u ty name) (\<lambda>added.
                     grant_loop env u rest (if added then acc @ [name] else acc))
                 else grant_loop env u rest acc) dc = (Ret names, d')"
    unfolding e by (auto simp: sbind_def split: prod.splits outcome.splits)
  have rc: "records dc = records d" using keepsD2 [OF kc(1) c] .
  have ac: "t_achievements dc = t_achievements d" using keepsD2 [OF kc(2) c] .
  have cnt_c: "ach_count u t dc = ach_count u t d" for t
    by (simp add: ach_count_def ac)
  obtain da acc' where
        A1: "records da = records d"
    and A2: "\<And>t. ach_count u t d \<le> ach_count u t da"
    and A3: "grant_loop env u rest acc' da = (Ret names, d')"
    and A4: "acc' = acc \<or> (acc' = acc @ [name] \<and> ach_count u ty d = 0 \<and> 0 < ach_count u ty da \<and>
               holds)"
    and A5: "holds \<Longrightarrow> 0 < ach_count u ty da"
  proof (cases holds)
    case True
    from after True obtain added da where
      a: "add_achievement (e_now env) u ty name dc = (Ret added, da)"
      and r: "grant_loop env u rest (if added then acc @ [name] else acc) da = (Ret names, d')"
      by (auto simp: sbind_def split: prod.splits outcome.splits)
    note f = add_achievement_facts [OF a]
    show ?thesis
    proof (rule that [of da "if added then acc @ [name] else acc"])
      show "records da = records d" using f(1) rc by simp
      show "ach_count u t d \<le> ach_count u t da" for t using f(2) [of t] cnt_c [of t] by simp
      show "grant_loop env u rest (if added then acc @ [name] else acc) da = (Ret names, d')"
        by (rule r)
      show "(if added then acc @ [name] else acc) = acc \<or>
            ((if added then acc @ [name] else acc) = acc @ [name] \<and> ach_count u ty d = 0 \<and>
             0 < ach_count u ty da \<and> holds)"
        using f(3) f(4) cnt_c [of ty] True by auto
      show "0 < ach_count u ty da" using f(3) .
    qed
  next
    case False
    show ?thesis
    proof (rule that [of dc acc])
      show "records dc = records d" by (rule rc)
      show "ach_count u t d \<le> ach_count u t dc" for t by (simp add: cnt_c)
      show "grant_loop env u rest acc dc = (Ret names, d')" using after False by simp
      show "acc = acc \<or> (acc = acc @ [name] \<and> ach_count u ty d = 0 \<and> 0 < ach_count u ty dc \<and> holds)"
        by simp
      show "0 < ach_count u ty dc" if holds using that False by simp
    qed
  qed
  have IH: "records d' = records da \<and>
         (\<forall>ty. ach_count u ty da \<le> ach_count u ty d') \<and>
         (\<exists>new. names = acc' @ new \<and>
            (\<forall>name \<in> set new. \<exists>ty cond dk. (ty, name, cond) \<in> set rest \<and>
               ach_count u ty da = 0 \<and> 0 < ach_count u ty d' \<and>
               records dk = records da \<and> fst (cond env u dk) = Ret True)) \<and>
         (\<forall>ty name cond dk. (ty, name, cond) \<in> set rest \<and> records dk = records da \<and>
            fst (cond env u dk) = Ret True \<and>
            (\<forall>dk'. records dk' = records dk \<longrightarrow> fst (cond env u dk') = fst (cond env u dk))
            \<longrightarrow> 0 < ach_count u ty d')"
    by (rule Cons.IH [OF _ A3]) (use rest_conds in blast)
  have mono: "ach_count u t d \<le> ach_count u t d'" for t
    using A2 [of t] IH by (meson order_trans)
  have 1: "records d' = records d" using IH A1 by simp
  have 3: "\<exists>new. names = acc @ new \<and>
            (\<forall>n \<in> set new. \<exists>t c dk. (t, n, c) \<in> set (entry # rest) \<and>
               ach_count u t d = 0 \<and> 0 < ach_count u t d' \<and>
               records dk = records d \<and> fst (c env u dk) = Ret True)"
  proof -
    from IH obtain new' where n': "names = acc' @ new'"
      and each: "\<forall>n \<in> set new'. \<exists>t c dk. (t, n, c) \<in> set rest \<and>
               ach_count u t da = 0 \<and> 0 < ach_count u t d' \<and>
               records dk = records da \<and> fst (c env u dk) = Ret True"
      by blast
    have each': "\<exists>t c dk. (t, n, c) \<in> set (entry # rest) \<and>
               ach_count u t d = 0 \<and> 0 < ach_count u t d' \<and>
               records dk = records d \<and> fst (c env u dk) = Ret True" if "n \<in> set new'" for n
    proof -
      from each that obtain t c dk where h: "(t, n, c) \<in> set rest" "ach_count u t da = 0"
        "0 < ach_count u t d'" "records dk = records da" "fst (c env u dk) = Ret True"
        by blast
      have "ach_count u t d = 0" using A2 [of t] h(2) by simp
      then show ?thesis using h A1 by auto
    qed
    from A4 show ?thesis
    proof
      assume "acc' = acc"
      then show ?thesis using n' each' by blast
    next
      assume h: "acc' = acc @ [name] \<and> ach_count u ty d = 0 \<and> 0 < ach_count u ty da \<and> holds"
      have head: "\<exists>t c dk. (t, name, c) \<in> set (entry # rest) \<and>
               ach_count u t d = 0 \<and> 0 < ach_count u t d' \<and>
               records dk = records d \<and> fst (c env u dk) = Ret True"
      proof (intro exI conjI)
        show "(ty, name, cond) \<in> set (entry # rest)" by (simp add: e)
        show "ach_count u ty d = 0" using h by simp
        show "0 < ach_count u ty d'" using h IH by (meson less_le_trans)
        show "records d = records d" by simp
        show "fst (cond env u d) = Ret True" using c h by simp
      qed
      have "names = acc @ (name # new')" using n' h by simp
      moreover have "\<forall>n \<in> set (name # new'). \<exists>t c dk. (t, n, c) \<in> set (entry # rest) \<and>
               ach_count u t d = 0 \<and> 0 < ach_count u t d' \<and>
               records dk = records d \<and> fst (c env u dk) = Ret True"
        using head each' by auto
      ultimately show ?thesis by blast
    qed
  qed
  have 4: "0 < ach_count u t d'"
    if h: "(t, n, c) \<in> set (entry # rest)" "records dk = records d"
      "fst (c env u dk) = Ret True"
      "\<forall>dk'. records dk' = records dk \<longrightarrow> fst (c env u dk') = fst (c env u dk)"
    for t n c dk
  proof (cases "(t, n, c) \<in> set rest")
    case True
    then show ?thesis using IH h A1 by (metis (no_types, lifting))
  next
    case False
    then have eq: "t = ty" "n = name" "c = cond" using h(1) e by auto
    have "fst (cond env u d) = Ret True" using h(2,3,4) eq by metis
    then have holds using c by simp
    then have "0 < ach_count u ty da" by (rule A5)
    then show ?thesis using IH eq by (meson less_le_trans)
  qed
  show ?case using 1 mono 3 4 by blast
qed


lemma registry_conditions:
  assumes "(ty, name, cond) \<in> set ACHIEVEMENTS"
  shows "keeps records (cond env u) \<and> keeps t_achievements (cond env u)"
  using keeps_conditions [OF besides_cache_records assms]
    keeps_conditions [OF besides_cache_achievements assms] by simp

lemma registry_names:
  "(ty1, name, c1) \<in> set ACHIEVEMENTS \<Longrightarrow> (ty2, name, c2) \<in> set ACHIEVEMENTS \<Longrightarrow> ty1 = ty2"
  by (auto simp: ACHIEVEMENTS_def)

text \<open>Three conditions read the favorites and the watch records only.\<close>

lemma get_favorites_records:
  "records d' = records d \<Longrightarrow> get_favorites u d' = get_favorites u d"
  by (simp add: records_def get_favorites_def)

lemma get_watchlist_records:
  "records d' = records d \<Longrightarrow> get_watchlist u st d' = get_watchlist u st d"
  by (simp add: records_def get_watchlist_def)

lemma store_conditions:
  assumes "records d' = records d"
  shows "fst (cond_anime_explorer e' u d') = fst (cond_anime_explorer e u d)"
    and "fst (cond_anime_lover e' u d') = fst (cond_anime_lover e u d)"
    and "fst (cond_completionist e' u d') = fst (cond_completionist e u d)"
  using get_favorites_records [OF assms] get_watchlist_records [OF assms]
  by (simp_all add: cond_anime_explorer_def cond_anime_lover_def cond_completionist_def)

text \<open>
  C4 (amended). Granting the same kind twice: the second \<open>add_achievement\<close> returns False and
  changes nothing, and the two calls leave exactly one record of the kind when there was
  none (a record more is never added). Consequently a second run of \<open>check_achievements\<close>,
  whatever the catalog answers, reports nothing that the first run reported, reports only
  kinds that the user did not hold before it, and never reports the three kinds whose
  condition reads the favorites and watch records only: it can report only \<open>genre_master\<close>
  and \<open>season_watcher\<close>, whose conditions ask the catalog.
\<close>

theorem achievements_granted_once:
  assumes u: "int64_ok u"
    and run1: "check_achievements env1 u d = (Ret n1, d1)"
    and run2: "check_achievements env2 u d1 = (Ret n2, d2)"
  shows "add_achievement now' u ty name' (snd (add_achievement now u ty name d0)) =
           (Ret False, snd (add_achievement now u ty name d0)) \<and>
         ach_count u ty (snd (add_achievement now u ty name d0)) =
           (if ach_count u ty d0 = 0 then 1 else ach_count u ty d0) \<and>
         set n1 \<inter> set n2 = {} \<and>
         set n2 \<subseteq> {''Maitre des Genres'', ''Observateur de Saisons''} \<and>
         list_all (\<lambda>n. list_ex (\<lambda>(t, n', c). n' = n \<and> ach_count u t d1 = 0 \<and> 0 < ach_count u t d2)
                          ACHIEVEMENTS) n2"
proof -
  have s1: "records d1 = records d \<and>
         (\<forall>ty. ach_count u ty d \<le> ach_count u ty d1) \<and>
         (\<exists>new. n1 = [] @ new \<and>
            (\<forall>name \<in> set new. \<exists>ty cond dk. (ty, name, cond) \<in> set ACHIEVEMENTS \<and>
               ach_count u ty d = 0 \<and> 0 < ach_count u ty d1 \<and>
               records dk = records d \<and> fst (cond env1 u dk) = Ret True)) \<and>
         (\<forall>ty name cond dk. (ty, name, cond) \<in> set ACHIEVEMENTS \<and> records dk = records d \<and>
            fst (cond env1 u dk) = Ret True \<and>
            (\<forall>dk'. records dk' = records dk \<longrightarrow> fst (cond env1 u dk') = fst (cond env1 u dk))
            \<longrightarrow> 0 < ach_count u ty d1)"
    by (rule grant_loop_spec [of ACHIEVEMENTS env1 u "[]" d n1 d1])
       (use registry_conditions run1 in \<open>simp_all add: check_achievements_def\<close>)
  have s2: "records d2 = records d1 \<and>
         (\<forall>ty. ach_count u ty d1 \<le> ach_count u ty d2) \<and>
         (\<exists>new. n2 = [] @ new \<and>
            (\<forall>name \<in> set new. \<exists>ty cond dk. (ty, name, cond) \<in> set ACHIEVEMENTS \<and>
               ach_count u ty d1 = 0 \<and> 0 < ach_count u ty d2 \<and>
               records dk = records d1 \<and> fst (cond env2 u dk) = Ret True)) \<and>
         (\<forall>ty name cond dk. (ty, name, cond) \<in> set ACHIEVEMENTS \<and> records dk = records d1 \<and>
            fst (cond env2 u dk) = Ret True \<and>
            (\<forall>dk'. records dk' = records dk \<longrightarrow> fst (cond env2 u dk') = fst (cond env2 u dk))
            \<longrightarrow> 0 < ach_count u ty d2)"
    by (rule grant_loop_spec [of ACHIEVEMENTS env2 u "[]" d1 n2 d2])
       (use registry_conditions run2 in \<open>simp_all add: check_achievements_def\<close>)
  have r1: "records d1 = records d" using s1 by blast
  have all1: "\<forall>name \<in> set n1. \<exists>ty cond dk. (ty, name, cond) \<in> set ACHIEVEMENTS \<and>
               ach_count u ty d = 0 \<and> 0 < ach_count u ty d1 \<and>
               records dk = records d \<and> fst (cond env1 u dk) = Ret True"
    using s1 by simp
  have all2: "\<forall>name \<in> set n2. \<exists>ty cond dk. (ty, name, cond) \<in> set ACHIEVEMENTS \<and>
               ach_count u ty d1 = 0 \<and> 0 < ach_count u ty d2 \<and>
               records dk = records d1 \<and> fst (cond env2 u dk) = Ret True"
    using s2 by simp
  have new1: "\<exists>t c. (t, n, c) \<in> set ACHIEVEMENTS \<and> 0 < ach_count u t d1" if "n \<in> set n1" for n
    using all1 that by blast
  have new2: "\<exists>t c dk. (t, n, c) \<in> set ACHIEVEMENTS \<and> ach_count u t d1 = 0 \<and>
                0 < ach_count u t d2 \<and> records dk = records d1 \<and> fst (c env2 u dk) = Ret True"
    if "n \<in> set n2" for n
    using all2 that by blast
  have held1: "0 < ach_count u t d1"
    if "(t, n, c) \<in> set ACHIEVEMENTS" "records dk = records d" "fst (c env1 u dk) = Ret True"
      "\<forall>dk'. records dk' = records dk \<longrightarrow> fst (c env1 u dk') = fst (c env1 u dk)"
    for t n c dk
    using s1 that by blast
  have disj: "set n1 \<inter> set n2 = {}"
  proof (rule ccontr)
    assume "set n1 \<inter> set n2 \<noteq> {}"
    then obtain n where n: "n \<in> set n1" "n \<in> set n2" by blast
    from new1 [OF n(1)] obtain t c where a: "(t, n, c) \<in> set ACHIEVEMENTS" "0 < ach_count u t d1"
      by blast
    from new2 [OF n(2)] obtain t' c' where b: "(t', n, c') \<in> set ACHIEVEMENTS"
      "ach_count u t' d1 = 0" by blast
    have "t = t'" using a(1) b(1) by (rule registry_names)
    then show False using a(2) b(2) by simp
  qed
  have only: "n \<in> {''Maitre des Genres'', ''Observateur de Saisons''}" if "n \<in> set n2" for n
  proof -
    from new2 [OF that] obtain t c dk where h: "(t, n, c) \<in> set ACHIEVEMENTS"
      "ach_count u t d1 = 0" "records dk = records d1" "fst (c env2 u dk) = Ret True"
      by blast
    have rk: "records dk = records d" using h(3) r1 by simp
    have no: False
      if st: "\<And>e e' x y. records y = records x \<Longrightarrow> fst (c e' u y) = fst (c e u x)"
    proof -
      have "fst (c env1 u dk) = Ret True" using st [of dk dk env1 env2] h(4) by simp
      moreover have "\<forall>dk'. records dk' = records dk \<longrightarrow> fst (c env1 u dk') = fst (c env1 u dk)"
        using st by blast
      ultimately have "0 < ach_count u t d1" using held1 [OF h(1) rk] by blast
      then show False using h(2) by simp
    qed
    from h(1) consider "c = cond_anime_explorer" | "c = cond_anime_lover"
      | "c = cond_completionist" | "n = ''Maitre des Genres''" | "n = ''Observateur de Saisons''"
      by (auto simp: ACHIEVEMENTS_def)
    then show ?thesis
    proof cases
      case 1
      then show ?thesis using no store_conditions(1) by blast
    next
      case 2
      then show ?thesis using no store_conditions(2) by blast
    next
      case 3
      then show ?thesis using no store_conditions(3) by blast
    qed simp_all
  qed
  have each: "list_all (\<lambda>n. list_ex (\<lambda>(t, n', c). n' = n \<and> ach_count u t d1 = 0 \<and> 0 < ach_count u t d2)
                          ACHIEVEMENTS) n2"
    unfolding list_all_iff list_ex_iff
  proof
    fix n assume "n \<in> set n2"
    from new2 [OF this] obtain t c where "(t, n, c) \<in> set ACHIEVEMENTS" "ach_count u t d1 = 0"
      "0 < ach_count u t d2" by blast
    then show "\<exists>x \<in> set ACHIEVEMENTS. case x of (t, n', c) \<Rightarrow>
                 n' = n \<and> ach_count u t d1 = 0 \<and> 0 < ach_count u t d2"
      by (intro bexI [of _ "(t, n, c)"]) simp_all
  qed
  have A: "add_achievement now' u ty name' (snd (add_achievement now u ty name d0)) =
             (Ret False, snd (add_achievement now u ty name d0))"
    by (rule add_achievement_twice(1) [OF u])
  have B: "ach_count u ty (snd (add_achievement now u ty name d0)) =
             (if ach_count u ty d0 = 0 then 1 else ach_count u ty d0)"
    by (rule add_achievement_twice(2) [OF u])
  show ?thesis using A B disj only each by blast
qed

text \<open>
  User 7 has twenty favorites and the catalog is down: the first run grants the kind for
  twenty favorites, the second run grants nothing.
\<close>

theorem achievements_granted_once_witness:
  "check_achievements env_down 7 db_twenty =
     (Ret [''Amoureux d'Animes''], snd (check_achievements env_down 7 db_twenty)) \<and>
   check_achievements env_down 7 (snd (check_achievements env_down 7 db_twenty)) =
     (Ret [], snd (check_achievements env_down 7 db_twenty)) \<and>
   add_achievement 11 7 ''anime_lover'' ''Amoureux d'Animes''
       (snd (add_achievement 10 7 ''anime_lover'' ''Amoureux d'Animes'' empty_db)) =
     (Ret False, snd (add_achievement 10 7 ''anime_lover'' ''Amoureux d'Animes'' empty_db)) \<and>
   ach_count 7 ''anime_lover''
       (snd (add_achievement 10 7 ''anime_lover'' ''Amoureux d'Animes'' empty_db)) = 1 \<and>
   set [''Amoureux d'Animes''] \<inter> set ([] :: string list) = {}"
proof -
  have u: "int64_ok 7" by (simp add: int64_ok_def)
  have run1: "check_achievements env_down 7 db_twenty =
     (Ret [''Amoureux d'Animes''], snd (check_achievements env_down 7 db_twenty))"
    by code_simp
  have run2: "check_achievements env_down 7 (snd (check_achievements env_down 7 db_twenty)) =
     (Ret [], snd (check_achievements env_down 7 db_twenty))"
    by code_simp
  have c0: "ach_count 7 ''anime_lover'' empty_db = 0" by code_simp
  show ?thesis
    using achievements_granted_once [OF u run1 run2, of 11 "''anime_lover''" "''Amoureux d'Animes''"
        10 "''Amoureux d'Animes''" empty_db] run1 run2 c0
    by simp
qed


text \<open>
  The claim as stated fails when the catalog answers differently: with one favorite and the
  catalog down the first run grants nothing and changes nothing; the second run, with the
  catalog back and ten genres for the favorite, grants a kind.
\<close>

theorem rerun_grants_counterexample:
  "check_achievements env_down 7 db_favorite = (Ret [], db_favorite) \<and>
   fst (check_achievements (env_catalog genre_rich_anime) 7 db_favorite) =
     Ret [''Maitre des Genres'']"
  by code_simp

section \<open>The client when the catalog fails\<close>

lemma fetch_list_unavailable:
  "unavailable (e_http env req) \<Longrightarrow> fetch_list cache env req dflt d = (Ret dflt, d)"
  by (auto simp: unavailable_def fetch_list_def sbind_def split: outcome.splits)

lemma fetch_one_unavailable:
  "unavailable (e_http env req) \<Longrightarrow> fetch_one cache env req d = (Ret JNull, d)"
  by (auto simp: unavailable_def fetch_one_def sbind_def split: outcome.splits)

lemma fetch_plain_unavailable:
  "unavailable (e_http env req) \<Longrightarrow> fetch_plain env req d = (Ret (JList []), d)"
  by (auto simp: unavailable_def fetch_plain_def sbind_def split: outcome.splits)

lemma truthy_anime_of_row [simp]: "truthy (anime_of_row k row)"
  by (simp add: anime_of_row_def)

lemma truthy_character_of_row [simp]: "truthy (character_of_row k row)"
  by (simp add: character_of_row_def)

text \<open>What the client reads from an answer without data.\<close>

lemma no_dataE:
  assumes "no_data r"
  obtains resp kvs v where "r = Ret resp" "r_status resp = 200" "r_json resp = Ret (JObj kvs)"
    "py_get (JObj kvs) ''data'' = Ret v" "\<not> truthy v"
proof -
  obtain resp where r: "r = Ret resp" and st: "r_status resp = 200"
    using assms by (auto simp: no_data_def split: outcome.splits)
  obtain kvs where j: "r_json resp = Ret (JObj kvs)"
    and v: "case map_of kvs ''data'' of None \<Rightarrow> True | Some v \<Rightarrow> \<not> truthy v"
    using assms r by (auto simp: no_data_def split: outcome.splits json.splits)
  have "\<not> truthy (case map_of kvs ''data'' of Some v \<Rightarrow> v | None \<Rightarrow> JNull)"
    using v by (auto split: option.splits)
  then show ?thesis using that [OF r st j] by (simp add: py_get_def)
qed

lemma cache_each_empty [simp]: "cache_each cache env (JList []) d = (Ret (), d)"
  by (simp add: cache_each_def sbind_def lift_def)

lemma fetch_list_no_data:
  assumes "no_data (e_http env req)"
  shows "fetch_list cache env req dflt d = (Ret (JList []), d)"
proof -
  from assms obtain resp kvs v where
    "e_http env req = Ret resp" "r_status resp = 200" "r_json resp = Ret (JObj kvs)"
    "py_get (JObj kvs) ''data'' = Ret v" "\<not> truthy v"
    by (rule no_dataE)
  then show ?thesis by (simp add: fetch_list_def sbind_def lift_def py_or_def)
qed

lemma fetch_plain_no_data:
  assumes "no_data (e_http env req)"
  shows "fetch_plain env req d = (Ret (JList []), d)"
proof -
  from assms obtain resp kvs v where
    "e_http env req = Ret resp" "r_status resp = 200" "r_json resp = Ret (JObj kvs)"
    "py_get (JObj kvs) ''data'' = Ret v" "\<not> truthy v"
    by (rule no_dataE)
  then show ?thesis by (simp add: fetch_plain_def sbind_def lift_def py_or_def)
qed

lemma fetch_one_no_data:
  assumes "no_data (e_http env req)"
  shows "\<exists>v. fetch_one cache env req d = (Ret v, d) \<and> \<not> truthy v"
proof -
  from assms obtain resp kvs v where
    "e_http env req = Ret resp" "r_status resp = 200" "r_json resp = Ret (JObj kvs)"
    "py_get (JObj kvs) ''data'' = Ret v" "\<not> truthy v"
    by (rule no_dataE)
  then show ?thesis by (simp add: fetch_one_def sbind_def lift_def)
qed

lemma fetch_one_failed:
  assumes "unavailable (e_http env req) \<or> no_data (e_http env req)"
  shows "\<exists>v. fetch_one cache env req d = (Ret v, d) \<and> \<not> truthy v"
  using assms fetch_one_unavailable [of env req cache d] fetch_one_no_data [of env req cache d]
  by auto

lemma season_no_data:
  assumes "no_data (e_http env (GetSeason year season))"
  shows "get_anime_by_season env year season d = (Ret (JList []), d)"
proof -
  from assms obtain resp kvs v where
    "e_http env (GetSeason year season) = Ret resp" "r_status resp = 200"
    "r_json resp = Ret (JObj kvs)" "py_get (JObj kvs) ''data'' = Ret v" "\<not> truthy v"
    by (rule no_dataE)
  then show ?thesis by (simp add: get_anime_by_season_def sbind_def lift_def py_or_def)
qed

lemma top_no_data:
  assumes "no_top_data (e_http env (GetTop filter_type page limit))"
  shows "\<exists>last. get_top_anime env filter_type page limit d = (Ret (JList [], last), d)"
proof -
  have nd: "no_data (e_http env (GetTop filter_type page limit))"
    using assms by (simp add: no_top_data_def)
  from nd obtain resp kvs v where r:
    "e_http env (GetTop filter_type page limit) = Ret resp" "r_status resp = 200"
    "r_json resp = Ret (JObj kvs)" "py_get (JObj kvs) ''data'' = Ret v" "\<not> truthy v"
    by (rule no_dataE)
  have "\<exists>p. py_get_d (JObj kvs) ''pagination'' (JObj []) = Ret (JObj p)"
    using assms r(1,3) by (auto simp: no_top_data_def split: option.splits json.splits)
  then obtain p where p: "py_get_d (JObj kvs) ''pagination'' (JObj []) = Ret (JObj p)" ..
  obtain last where l: "py_get_d (JObj p) ''last_visible_page'' (JInt 1) = Ret last" by simp
  show ?thesis
    using r by (simp add: get_top_anime_def sbind_def lift_def py_or_def p l del: py_get_d.simps)
qed

lemma by_id_failed:
  assumes "int64_ok i" and "unavailable (e_http env (GetAnime i)) \<or> no_data (e_http env (GetAnime i))"
  shows "\<exists>v. get_anime_by_id env i d = (Ret v, d) \<and>
             (map_of (t_anime_cache d) i = None \<longrightarrow> \<not> truthy v)"
proof (cases "map_of (t_anime_cache d) i")
  case None
  then have "get_anime_by_id env i d = fetch_one cache_anime env (GetAnime i) d"
    using assms(1) by (simp add: get_anime_by_id_def get_cached_anime_def sbind_def)
  then show ?thesis using fetch_one_failed [OF assms(2), of cache_anime d] by auto
next
  case (Some row)
  then show ?thesis
    using assms(1) by (simp add: get_anime_by_id_def get_cached_anime_def sbind_def lift_def)
qed

lemma character_by_id_failed:
  assumes "int64_ok i"
    and "unavailable (e_http env (GetCharacterFull i)) \<or> no_data (e_http env (GetCharacterFull i))"
  shows "\<exists>v. get_character_by_id env i d = (Ret v, d) \<and>
             (map_of (t_character_cache d) i = None \<longrightarrow> \<not> truthy v)"
proof (cases "map_of (t_character_cache d) i")
  case None
  then have "get_character_by_id env i d = fetch_one cache_character env (GetCharacterFull i) d"
    using assms(1) by (simp add: get_character_by_id_def get_cached_character_def sbind_def)
  then show ?thesis using fetch_one_failed [OF assms(2), of cache_character d] by auto
next
  case (Some row)
  then show ?thesis
    using assms(1)
    by (simp add: get_character_by_id_def get_cached_character_def sbind_def lift_def)
qed

text \<open>
  C5 (amended). For each operation of the catalog client (search, fetch by id, by season,
  top, random, schedule, characters of an anime, character by id): when its request raises
  an exception of the \<open>requests\<close> library, or the status is not 200, or decoding the body
  raises an exception of that library, or the body decodes to a JSON object whose \<open>data\<close> is
  absent or false (for the top list, with \<open>pagination\<close> absent or an object), the operation
  returns without raising and leaves the store as it was, and what it returns is empty or
  absent (a false value; for the top list a pair whose list is false). For the two fetches
  by id this is stated for an id within the 64 bits of an SQLite integer, and the result is
  empty or absent when the cache has no row for the id.
\<close>

theorem catalog_client_recovers:
  "(unavailable (e_http env (GetAnimeSearch query limit)) \<or>
    no_data (e_http env (GetAnimeSearch query limit)) \<longrightarrow>
      (\<exists>v. search_anime env query limit d = (Ret v, d) \<and> \<not> truthy v)) \<and>
   (int64_ok anime_id \<and>
    (unavailable (e_http env (GetAnime anime_id)) \<or> no_data (e_http env (GetAnime anime_id))) \<longrightarrow>
      (\<exists>v. get_anime_by_id env anime_id d = (Ret v, d) \<and>
           (map_of (t_anime_cache d) anime_id = None \<longrightarrow> \<not> truthy v))) \<and>
   (unavailable (e_http env (GetSeason year season)) \<or>
    no_data (e_http env (GetSeason year season)) \<longrightarrow>
      (\<exists>v. get_anime_by_season env year season d = (Ret v, d) \<and> \<not> truthy v)) \<and>
   (unavailable (e_http env (GetTop filter_type page top_limit)) \<or>
    no_top_data (e_http env (GetTop filter_type page top_limit)) \<longrightarrow>
      (\<exists>v last. get_top_anime env filter_type page top_limit d = (Ret (v, last), d) \<and>
                \<not> truthy v)) \<and>
   (unavailable (e_http env GetRandom) \<or> no_data (e_http env GetRandom) \<longrightarrow>
      (\<exists>v. get_random_anime env d = (Ret v, d) \<and> \<not> truthy v)) \<and>
   (unavailable (e_http env (GetSchedules None)) \<or> no_data (e_http env (GetSchedules None)) \<longrightarrow>
      (\<exists>v. get_schedule env None d = (Ret v, d) \<and> \<not> truthy v)) \<and>
   (unavailable (e_http env (GetSchedules (Some (c # day)))) \<or>
    no_data (e_http env (GetSchedules (Some (c # day)))) \<longrightarrow>
      (\<exists>v. get_schedule env (Some (c # day)) d = (Ret v, d) \<and> \<not> truthy v)) \<and>
   (unavailable (e_http env (GetAnimeCharacters of_anime)) \<or>
    no_data (e_http env (GetAnimeCharacters of_anime)) \<longrightarrow>
      (\<exists>v. get_anime_characters env of_anime d = (Ret v, d) \<and> \<not> truthy v)) \<and>
   (int64_ok character_id \<and>
    (unavailable (e_http env (GetCharacterFull character_id)) \<or>
     no_data (e_http env (GetCharacterFull character_id))) \<longrightarrow>
      (\<exists>v. get_character_by_id env character_id d = (Ret v, d) \<and>
           (map_of (t_character_cache d) character_id = None \<longrightarrow> \<not> truthy v)))"
proof -
  have list: "\<exists>v. fetch_list cache env req dflt d = (Ret v, d) \<and> \<not> truthy v"
    if "unavailable (e_http env req) \<or> no_data (e_http env req)" "\<not> truthy dflt"
    for cache req dflt
    using that fetch_list_unavailable [of env req cache dflt d]
      fetch_list_no_data [of env req cache dflt d] by auto
  have plain: "\<exists>v. fetch_plain env req d = (Ret v, d) \<and> \<not> truthy v"
    if "unavailable (e_http env req) \<or> no_data (e_http env req)" for req
    using that fetch_plain_unavailable [of env req d] fetch_plain_no_data [of env req d] by auto
  have 1: "unavailable (e_http env (GetAnimeSearch query limit)) \<or>
           no_data (e_http env (GetAnimeSearch query limit)) \<longrightarrow>
             (\<exists>v. search_anime env query limit d = (Ret v, d) \<and> \<not> truthy v)"
    using list [of "GetAnimeSearch query limit" JNull cache_anime] by (simp add: search_anime_def)
  have 2: "int64_ok anime_id \<and>
           (unavailable (e_http env (GetAnime anime_id)) \<or> no_data (e_http env (GetAnime anime_id))) \<longrightarrow>
             (\<exists>v. get_anime_by_id env anime_id d = (Ret v, d) \<and>
                  (map_of (t_anime_cache d) anime_id = None \<longrightarrow> \<not> truthy v))"
    using by_id_failed [of anime_id env d] by blast
  have 3: "unavailable (e_http env (GetSeason year season)) \<or>
           no_data (e_http env (GetSeason year season)) \<longrightarrow>
             (\<exists>v. get_anime_by_season env year season d = (Ret v, d) \<and> \<not> truthy v)"
  proof
    assume "unavailable (e_http env (GetSeason year season)) \<or>
            no_data (e_http env (GetSeason year season))"
    then show "\<exists>v. get_anime_by_season env year season d = (Ret v, d) \<and> \<not> truthy v"
    proof
      assume "unavailable (e_http env (GetSeason year season))"
      then have "get_anime_by_season env year season d = (Ret JNull, d)"
        by (auto simp: unavailable_def get_anime_by_season_def sbind_def split: outcome.splits)
      then show ?thesis by simp
    next
      assume "no_data (e_http env (GetSeason year season))"
      then show ?thesis using season_no_data [of env year season d] by simp
    qed
  qed
  have 4: "unavailable (e_http env (GetTop filter_type page top_limit)) \<or>
           no_top_data (e_http env (GetTop filter_type page top_limit)) \<longrightarrow>
             (\<exists>v last. get_top_anime env filter_type page top_limit d = (Ret (v, last), d) \<and>
                       \<not> truthy v)"
  proof
    assume "unavailable (e_http env (GetTop filter_type page top_limit)) \<or>
            no_top_data (e_http env (GetTop filter_type page top_limit))"
    then show "\<exists>v last. get_top_anime env filter_type page top_limit d = (Ret (v, last), d) \<and>
                       \<not> truthy v"
    proof
      assume "unavailable (e_http env (GetTop filter_type page top_limit))"
      then have "get_top_anime env filter_type page top_limit d = (Ret (JList [], JInt 1), d)"
        by (auto simp: unavailable_def get_top_anime_def sbind_def split: outcome.splits)
      then show ?thesis by simp
    next
      assume "no_top_data (e_http env (GetTop filter_type page top_limit))"
      then obtain last where
        "get_top_anime env filter_type page top_limit d = (Ret (JList [], last), d)"
        using top_no_data [of env filter_type page top_limit d] by blast
      then show ?thesis by simp
    qed
  qed
  have 5: "unavailable (e_http env GetRandom) \<or> no_data (e_http env GetRandom) \<longrightarrow>
             (\<exists>v. get_random_anime env d = (Ret v, d) \<and> \<not> truthy v)"
    using fetch_one_failed [of env GetRandom cache_anime d] by (simp add: get_random_anime_def)
  have 6: "unavailable (e_http env (GetSchedules None)) \<or> no_data (e_http env (GetSchedules None)) \<longrightarrow>
             (\<exists>v. get_schedule env None d = (Ret v, d) \<and> \<not> truthy v)"
    using list [of "GetSchedules None" "JList []" cache_anime] by (simp add: get_schedule_def)
  have 7: "unavailable (e_http env (GetSchedules (Some (c # day)))) \<or>
           no_data (e_http env (GetSchedules (Some (c # day)))) \<longrightarrow>
             (\<exists>v. get_schedule env (Some (c # day)) d = (Ret v, d) \<and> \<not> truthy v)"
    using list [of "GetSchedules (Some (c # day))" "JList []" cache_anime]
    by (simp add: get_schedule_def)
  have 8: "unavailable (e_http env (GetAnimeCharacters of_anime)) \<or>
           no_data (e_http env (GetAnimeCharacters of_anime)) \<longrightarrow>
             (\<exists>v. get_anime_characters env of_anime d = (Ret v, d) \<and> \<not> truthy v)"
    using plain [of "GetAnimeCharacters of_anime"] by (simp add: get_anime_characters_def)
  have 9: "int64_ok character_id \<and>
           (unavailable (e_http env (GetCharacterFull character_id)) \<or>
            no_data (e_http env (GetCharacterFull character_id))) \<longrightarrow>
             (\<exists>v. get_character_by_id env character_id d = (Ret v, d) \<and>
                  (map_of (t_character_cache d) character_id = None \<longrightarrow> \<not> truthy v))"
    using character_by_id_failed [of character_id env d] by blast
  from 1 2 3 4 5 6 7 8 9 show ?thesis by (intro conjI)
qed

text \<open>
  Every operation in the world where no request gets through, and the search and the top
  list in the world where every answer is the empty object.
\<close>

theorem catalog_client_recovers_witness:
  "(\<exists>v. search_anime env_down ''naruto'' 10 empty_db = (Ret v, empty_db) \<and> \<not> truthy v) \<and>
   (\<exists>v. get_anime_by_id env_down 42 empty_db = (Ret v, empty_db) \<and> \<not> truthy v) \<and>
   (\<exists>v. get_anime_by_season env_down ''2023'' ''fall'' empty_db = (Ret v, empty_db) \<and> \<not> truthy v) \<and>
   (\<exists>v last. get_top_anime env_down ''all'' 1 10 empty_db = (Ret (v, last), empty_db) \<and>
             \<not> truthy v) \<and>
   (\<exists>v. get_random_anime env_down empty_db = (Ret v, empty_db) \<and> \<not> truthy v) \<and>
   (\<exists>v. get_schedule env_down None empty_db = (Ret v, empty_db) \<and> \<not> truthy v) \<and>
   (\<exists>v. get_schedule env_down (Some ''monday'') empty_db = (Ret v, empty_db) \<and> \<not> truthy v) \<and>
   (\<exists>v. get_anime_characters env_down 42 empty_db = (Ret v, empty_db) \<and> \<not> truthy v) \<and>
   (\<exists>v. get_character_by_id env_down 17 empty_db = (Ret v, empty_db) \<and> \<not> truthy v) \<and>
   (\<exists>v. search_anime env_no_data ''naruto'' 10 empty_db = (Ret v, empty_db) \<and> \<not> truthy v) \<and>
   (\<exists>v last. get_top_anime env_no_data ''all'' 1 10 empty_db = (Ret (v, last), empty_db) \<and>
             \<not> truthy v) \<and>
   search_anime env_down ''naruto'' 10 empty_db = (Ret JNull, empty_db) \<and>
   search_anime env_no_data ''naruto'' 10 empty_db = (Ret (JList []), empty_db) \<and>
   get_top_anime env_down ''all'' 1 10 empty_db = (Ret (JList [], JInt 1), empty_db) \<and>
   get_top_anime env_no_data ''all'' 1 10 empty_db = (Ret (JList [], JInt 1), empty_db)"
proof -
  have u: "unavailable (e_http env_down req)" for req
    by (simp add: env_down_def unavailable_def)
  have n: "no_data (e_http env_no_data req)" "no_top_data (e_http env_no_data req)" for req
    by (simp_all add: env_no_data_def no_data_def no_top_data_def ok_response_def)
  have i: "int64_ok 42" "int64_ok 17" by (simp_all add: int64_ok_def)
  have m: "map_of (t_anime_cache empty_db) 42 = None" "map_of (t_character_cache empty_db) 17 = None"
    by (simp_all add: empty_db_def)
  note down = catalog_client_recovers [where env = env_down and query = "''naruto''"
      and limit = 10 and d = empty_db and anime_id = 42 and year = "''2023''"
      and season = "''fall''" and filter_type = "''all''" and page = 1 and top_limit = 10
      and c = "CHR ''m''" and day = "''onday''" and of_anime = 42 and character_id = 17]
  note nodata = catalog_client_recovers [where env = env_no_data and query = "''naruto''"
      and limit = 10 and d = empty_db and filter_type = "''all''" and page = 1
      and top_limit = 10]
  have 1: "\<exists>v. search_anime env_down ''naruto'' 10 empty_db = (Ret v, empty_db) \<and> \<not> truthy v"
    using down u by blast
  have 2: "\<exists>v. get_anime_by_id env_down 42 empty_db = (Ret v, empty_db) \<and> \<not> truthy v"
    using down u i m by blast
  have 3: "\<exists>v. get_anime_by_season env_down ''2023'' ''fall'' empty_db = (Ret v, empty_db) \<and>
               \<not> truthy v"
    using down u by blast
  have 4: "\<exists>v last. get_top_anime env_down ''all'' 1 10 empty_db = (Ret (v, last), empty_db) \<and>
                    \<not> truthy v"
    using down u by blast
  have 5: "\<exists>v. get_random_anime env_down empty_db = (Ret v, empty_db) \<and> \<not> truthy v"
    using down u by blast
  have 6: "\<exists>v. get_schedule env_down None empty_db = (Ret v, empty_db) \<and> \<not> truthy v"
    using down u by blast
  have 7: "\<exists>v. get_schedule env_down (Some ''monday'') empty_db = (Ret v, empty_db) \<and> \<not> truthy v"
    using down u by blast
  have 8: "\<exists>v. get_anime_characters env_down 42 empty_db = (Ret v, empty_db) \<and> \<not> truthy v"
    using down u by blast
  have 9: "\<exists>v. get_character_by_id env_down 17 empty_db = (Ret v, empty_db) \<and> \<not> truthy v"
    using down u i m by blast
  have 10: "\<exists>v. search_anime env_no_data ''naruto'' 10 empty_db = (Ret v, empty_db) \<and> \<not> truthy v"
    using nodata n by blast
  have 11: "\<exists>v last. get_top_anime env_no_data ''all'' 1 10 empty_db = (Ret (v, last), empty_db) \<and>
                     \<not> truthy v"
    using nodata n by blast
  have 12: "search_anime env_down ''naruto'' 10 empty_db = (Ret JNull, empty_db)" by code_simp
  have 13: "search_anime env_no_data ''naruto'' 10 empty_db = (Ret (JList []), empty_db)"
    by code_simp
  have 14: "get_top_anime env_down ''all'' 1 10 empty_db = (Ret (JList [], JInt 1), empty_db)"
    by code_simp
  have 15: "get_top_anime env_no_data ''all'' 1 10 empty_db = (Ret (JList [], JInt 1), empty_db)"
    by code_simp
  from 1 2 3 4 5 6 7 8 9 10 11 12 13 14 15 show ?thesis by (intro conjI)
qed

text \<open>
  The claim as stated fails for a body that is not an object: with status 200 and the body
  \<open>[]\<close> the search raises \<open>AttributeError\<close>.
\<close>

theorem wrong_shape_counterexample:
  "fst (search_anime env_wrong_shape ''naruto'' 10 empty_db) = Raise AttributeError"
  by code_simp
section \<open>What the cache gives back\<close>

lemma obind_Ret_iff: "(obind m f = Ret y) = (\<exists>x. m = Ret x \<and> f x = Ret y)"
  by (cases m) simp_all

lemma bind_text_inv: "bind_text v = Ret t \<Longrightarrow> of_text t = v"
  by (cases v) (auto simp: of_text_def)

lemma bind_integer_inv: "bind_integer v = Ret t \<Longrightarrow> of_integer t = v"
  by (cases v) (auto simp: of_integer_def split: if_splits)

lemma bind_real_inv: "bind_real v = Ret t \<Longrightarrow> of_real t = as_float v"
  by (cases v) (auto simp: of_real_def as_float_def split: if_splits)

lemma bind_key_inv: "bind_key v = Ret k \<Longrightarrow> v = JInt k \<and> int64_ok k"
  by (cases v) (auto split: if_splits)

lemma omap_named: "omap (\<lambda>g. py_item g ''name'') (map (\<lambda>name. JObj [(''name'', name)]) ns) = Ret ns"
  by (induction ns) simp_all

lemma names_of_named:
  "map_of kvs key = Some (named ns) \<Longrightarrow> names_of (JObj kvs) key = Ret ns"
  by (simp add: names_of_def named_def omap_named)

lemma cache_anime_Ret:
  assumes "cache_anime now anime d = (Ret (), d')"
  obtains k row where "anime_row_of now anime = Ret (k, row)"
    and "d' = d\<lparr>t_anime_cache := insert_or_replace k row (t_anime_cache d)\<rparr>"
  using assms by (auto simp: cache_anime_def split: outcome.splits)

text \<open>
  C6 (amended). After \<open>cache_anime\<close> has written an entity, \<open>get_cached_anime\<close> returns for
  the entity's id a snapshot that agrees with the entity on the id, on the ten keys that the
  cache stores as they are, on the score (an \<open>int\<close> comes back as a float), on the names of
  the genres, studios and producers, and on the image (the large one, else the plain one);
  a fetch by id returns this snapshot whatever the catalog would answer, and leaves the store
  as it is.
\<close>

theorem cached_snapshot_agrees:
  assumes c: "cache_anime now anime d = (Ret (), d')"
  shows "\<exists>k snap.
      py_get anime ''mal_id'' = Ret (JInt k) \<and>
      get_cached_anime k d' = Ret snap \<and>
      get_anime_by_id env k d' = (Ret snap, d') \<and>
      py_get snap ''mal_id'' = Ret (JInt k) \<and>
      list_all (\<lambda>key. py_get snap key = py_get anime key) kept_keys \<and>
      py_get snap ''score'' = obind (py_get anime ''score'') (\<lambda>v. Ret (as_float v)) \<and>
      list_all (\<lambda>key. names_of snap key = names_of anime key)
        [''genres'', ''studios'', ''producers''] \<and>
      anime_image_url snap = anime_image_url anime"
proof -
  from c obtain k row where r: "anime_row_of now anime = Ret (k, row)"
    and d': "d' = d\<lparr>t_anime_cache := insert_or_replace k row (t_anime_cache d)\<rparr>"
    by (rule cache_anime_Ret)
  from r obtain genres studios producers image_url v_id v_title v_tj v_te image v_syn v_score
      v_eps v_status v_year v_dur v_rating v_source
    where g: "names_of anime ''genres'' = Ret genres"
      and s: "names_of anime ''studios'' = Ret studios"
      and p: "names_of anime ''producers'' = Ret producers"
      and i: "anime_image_url anime = Ret image_url" "bind_text image_url = Ret image"
      and k: "py_get anime ''mal_id'' = Ret v_id" "bind_key v_id = Ret k"
      and t: "py_get anime ''title'' = Ret v_title" "bind_text v_title = Ret (c_title row)"
      and tj: "py_get anime ''title_japanese'' = Ret v_tj" "bind_text v_tj = Ret (c_title_japanese row)"
      and te: "py_get anime ''title_english'' = Ret v_te" "bind_text v_te = Ret (c_title_english row)"
      and sy: "py_get anime ''synopsis'' = Ret v_syn" "bind_text v_syn = Ret (c_synopsis row)"
      and sc: "py_get anime ''score'' = Ret v_score" "bind_real v_score = Ret (c_score row)"
      and ep: "py_get anime ''episodes'' = Ret v_eps" "bind_integer v_eps = Ret (c_episodes row)"
      and st: "py_get anime ''status'' = Ret v_status" "bind_text v_status = Ret (c_status row)"
      and yr: "py_get anime ''year'' = Ret v_year" "bind_integer v_year = Ret (c_year row)"
      and du: "py_get anime ''duration'' = Ret v_dur" "bind_text v_dur = Ret (c_duration row)"
      and ra: "py_get anime ''rating'' = Ret v_rating" "bind_text v_rating = Ret (c_rating row)"
      and so: "py_get anime ''source'' = Ret v_source" "bind_text v_source = Ret (c_source row)"
      and rest: "c_genres row = genres" "c_studios row = studios" "c_producers row = producers"
        "c_image_url row = image"
    unfolding anime_row_of_def obind_Ret_iff by auto
  let ?snap = "anime_of_row k row"
  from k have vid: "v_id = JInt k" and k64: "int64_ok k" using bind_key_inv by auto
  have look: "map_of (t_anime_cache d') k = Some row" by (simp add: d')
  have 1: "py_get anime ''mal_id'' = Ret (JInt k)" using k vid by simp
  have 2: "get_cached_anime k d' = Ret ?snap"
    using k64 look by (simp add: get_cached_anime_def)
  have 3: "get_anime_by_id env k d' = (Ret ?snap, d')"
    using 2 by (simp add: get_anime_by_id_def sbind_def)
  have 4: "py_get ?snap ''mal_id'' = Ret (JInt k)"
    by (simp add: anime_of_row_def py_get_def)
  have 5: "list_all (\<lambda>key. py_get ?snap key = py_get anime key) kept_keys"
    using t tj te sy ep st yr du ra so
    by (simp add: kept_keys_def anime_of_row_def py_get_def bind_text_inv bind_integer_inv)
  have 6: "py_get ?snap ''score'' = obind (py_get anime ''score'') (\<lambda>v. Ret (as_float v))"
    using sc by (simp add: anime_of_row_def py_get_def bind_real_inv)
  have 7: "list_all (\<lambda>key. names_of ?snap key = names_of anime key)
             [''genres'', ''studios'', ''producers'']"
    using g s p rest by (simp add: anime_of_row_def names_of_named)
  have "of_text image = image_url" using i(2) by (rule bind_text_inv)
  then have 8: "anime_image_url ?snap = anime_image_url anime"
    using i(1) rest(4) by (simp add: anime_of_row_def anime_image_url_def py_get_def)
  from 1 2 3 4 5 6 7 8 show ?thesis by blast
qed

theorem cached_snapshot_agrees_witness:
  "\<exists>k snap.
      py_get example_anime ''mal_id'' = Ret (JInt k) \<and>
      get_cached_anime k (snd (cache_anime 9 example_anime empty_db)) = Ret snap \<and>
      get_anime_by_id env_down k (snd (cache_anime 9 example_anime empty_db)) =
        (Ret snap, snd (cache_anime 9 example_anime empty_db)) \<and>
      py_get snap ''mal_id'' = Ret (JInt k) \<and>
      list_all (\<lambda>key. py_get snap key = py_get example_anime key) kept_keys \<and>
      py_get snap ''score'' = obind (py_get example_anime ''score'') (\<lambda>v. Ret (as_float v)) \<and>
      list_all (\<lambda>key. names_of snap key = names_of example_anime key)
        [''genres'', ''studios'', ''producers''] \<and>
      anime_image_url snap = anime_image_url example_anime"
proof -
  have a: "cache_anime 9 example_anime empty_db =
             (Ret (), snd (cache_anime 9 example_anime empty_db))"
    by code_simp
  show ?thesis by (rule cached_snapshot_agrees [OF a])
qed

theorem snapshot_counterexample:
  "fst (get_anime_by_id (env_catalog example_anime) 42 empty_db) = Ret example_anime \<and>
   py_get example_anime ''trailer'' = Ret (JObj [(''url'', JStr ''https://trailer'')]) \<and>
   obind (fst (get_anime_by_id env_down 42
                 (snd (get_anime_by_id (env_catalog example_anime) 42 empty_db))))
     (\<lambda>a. py_get a ''trailer'') = Ret JNull"
  by code_simp

section \<open>Pages beyond the stored results\<close>

text \<open>
  C7. The claim asks for the fallback response. With six stored results, the data
  \<open>page_anime_naruto_7\<close> replaces the keyboard by one that has no item and only the row that
  navigates (\<open>8/2\<close>); with no stored results the handler sends nothing after the answer to
  the query. No fallback text is sent in either case.
\<close>

theorem page_beyond_results_renders_empty_page:
  "fst (button_handler env_down example_user ''page_anime_naruto_7''
          (st_of empty_db session_naruto)) = Ret () \<and>
   s_out (snd (button_handler env_down example_user ''page_anime_naruto_7''
          (st_of empty_db session_naruto))) =
     [Answer None,
      EditReplyMarkup [[Button LPrev ''page_anime_naruto_6'', Button (LPageOf 8 2) ''noop'']]] \<and>
   fst (button_handler env_down example_user ''page_anime_naruto_1'' (st_of empty_db [])) = Ret () \<and>
   s_out (snd (button_handler env_down example_user ''page_anime_naruto_1'' (st_of empty_db []))) =
     [Answer None]"
  by code_simp

theorem page_beyond_results_renders_empty_page_witness:
  "s_out (snd (button_handler env_down example_user ''page_anime_naruto_7''
          (st_of empty_db session_naruto))) =
     [Answer None,
      EditReplyMarkup [[Button LPrev ''page_anime_naruto_6'', Button (LPageOf 8 2) ''noop'']]]"
  by (rule conjunct1 [OF conjunct2 [OF page_beyond_results_renders_empty_page]])

section \<open>Callback data that the router ignores\<close>

lemma route_unknown: "\<not> known_action data \<Longrightarrow> route data = BrNone"
  by (simp add: known_action_def route_def)

lemma startswith_append: "startswith s p \<Longrightarrow> \<exists>r. s = p @ r"
proof (induction s p rule: startswith.induct)
  case (1 s)
  then show ?case by simp
next
  case (2 p ps)
  then show ?case by simp
next
  case (3 c cs p ps)
  then show ?case by auto
qed

lemma route_page: "startswith data ''page_'' \<Longrightarrow> route data = BrPage"
  by (simp add: route_def)

lemma route_top: "startswith data ''top_'' \<Longrightarrow> route data = BrTop"
proof -
  assume "startswith data ''top_''"
  then obtain r where "data = ''top_'' @ r" using startswith_append by blast
  then show ?thesis by (simp add: route_def)
qed

text \<open>The handler up to the dispatch: the query is answered and the user registered.\<close>

lemma button_handler_prologue:
  assumes "int64_ok (tg_id user)" and "e_send env (s_out s) (Answer None) = None"
  shows "button_handler env user data s =
     (case route data of
        BrPage \<Rightarrow> bh_page env data
      | BrTop \<Rightarrow> bh_top env data
      | BrFav \<Rightarrow> bh_fav env (tg_id user) data
      | BrWatch \<Rightarrow> bh_watch env (tg_id user) data
      | BrProgress \<Rightarrow> bh_progress env (tg_id user) data
      | BrProfileMain \<Rightarrow> emit env (EditText MsgProfile (Some create_profile_keyboard))
      | BrProfileWatchlist \<Rightarrow> emit env (EditText MsgWatchlistMenu (Some create_watchlist_keyboard))
      | BrProfileRecommendations \<Rightarrow> bh_recommendations env (tg_id user)
      | BrProfileBack \<Rightarrow> emit env (EditText MsgProfile (Some create_profile_keyboard))
      | BrNoop \<Rightarrow> lift (Ret ())
      | BrNone \<Rightarrow> lift (Ret ())
      | _ \<Rightarrow> (\<lambda>s. (Unmodelled, s)))
       (s\<lparr>s_db := (s_db s)\<lparr>t_users :=
              (if tg_id user \<in> fst ` set (t_users (s_db s)) then t_users (s_db s)
               else t_users (s_db s) @
                 [(tg_id user,
                   \<lparr>u_username = tg_username user, u_first_name = tg_first_name user,
                    u_last_name = tg_last_name user, u_language_code = tg_language_code user,
                    u_created_at = e_now env\<rparr>)])\<rparr>,
          s_out := s_out s @ [Answer None]\<rparr>)"
  using assms
  by (cases s)
     (simp add: button_handler_def emit_def on_db_def add_user_def sbind_def insert_or_ignore_def)

text \<open>
  C9 (amended). For callback data whose action token is not a known action, and for the
  malformed data that the branches of \<open>page_\<close> and \<open>top_\<close> guard against (\<open>page_\<close> with fewer
  than four parts, or with a page that is a number and a search type that is neither
  \<open>anime\<close> nor \<open>character\<close>; \<open>top_\<close> with fewer than three parts): when the transport accepts
  the answer to the query and the id of the user who pressed fits 64 bits, the handler
  answers the query, adds the user to the table of users if absent, sends nothing else,
  changes nothing else and raises nothing.
\<close>

theorem ignored_data_runs_no_branch:
  assumes ignored:
      "\<not> known_action data \<or>
       (startswith data ''page_'' \<and> length (py_split data) < 4) \<or>
       (startswith data ''page_'' \<and> 4 \<le> length (py_split data) \<and>
          (\<exists>n. py_int (last (py_split data)) = Ret n) \<and>
          py_split data ! 1 \<noteq> ''anime'' \<and> py_split data ! 1 \<noteq> ''character'') \<or>
       (startswith data ''top_'' \<and> length (py_split data) < 3)"
    and uid: "int64_ok (tg_id user)"
    and sent: "e_send env (s_out s) (Answer None) = None"
  shows "button_handler env user data s =
     (Ret (),
      s\<lparr>s_db := (s_db s)\<lparr>t_users :=
             (if tg_id user \<in> fst ` set (t_users (s_db s)) then t_users (s_db s)
              else t_users (s_db s) @
                [(tg_id user,
                  \<lparr>u_username = tg_username user, u_first_name = tg_first_name user,
                   u_last_name = tg_last_name user, u_language_code = tg_language_code user,
                   u_created_at = e_now env\<rparr>)])\<rparr>,
         s_out := s_out s @ [Answer None]\<rparr>)"
proof -
  note pro = button_handler_prologue [OF uid sent, of data]
  from ignored consider
      (unknown) "\<not> known_action data"
    | (short_page) "startswith data ''page_''" "length (py_split data) < 4"
    | (other_page) n where "startswith data ''page_''" "4 \<le> length (py_split data)"
        "py_int (last (py_split data)) = Ret n"
        "py_split data ! 1 \<noteq> ''anime''" "py_split data ! 1 \<noteq> ''character''"
    | (short_top) "startswith data ''top_''" "length (py_split data) < 3"
    by blast
  then show ?thesis
  proof cases
    case unknown
    then show ?thesis by (simp add: pro route_unknown lift_def)
  next
    case short_page
    then show ?thesis by (simp add: pro route_page bh_page_def Let_def)
  next
    case other_page
    then show ?thesis by (simp add: pro route_page bh_page_def Let_def sbind_def lift_def)
  next
    case short_top
    then show ?thesis by (simp add: pro route_top bh_top_def Let_def)
  qed
qed

text \<open>
  A stranger presses a button with unknown data, and one with the data \<open>page_anime_x\<close>: the
  store gains the row of the user and nothing else.
\<close>

theorem ignored_data_runs_no_branch_witness:
  "button_handler env_down example_user ''whatever'' (st_of empty_db []) =
     (Ret (),
      \<lparr>s_db = empty_db\<lparr>t_users :=
          [(7, \<lparr>u_username = Some ''ann'', u_first_name = Some ''Ann'', u_last_name = None,
                u_language_code = Some ''fr'', u_created_at = 9\<rparr>)]\<rparr>,
       s_session = [], s_out = [Answer None]\<rparr>) \<and>
   button_handler env_down example_user ''page_anime_x'' (st_of empty_db []) =
     (Ret (),
      \<lparr>s_db = empty_db\<lparr>t_users :=
          [(7, \<lparr>u_username = Some ''ann'', u_first_name = Some ''Ann'', u_last_name = None,
                u_language_code = Some ''fr'', u_created_at = 9\<rparr>)]\<rparr>,
       s_session = [], s_out = [Answer None]\<rparr>)"
proof -
  have uid: "int64_ok (tg_id example_user)" by code_simp
  have sent: "e_send env_down (s_out (st_of empty_db [])) (Answer None) = None"
    by (simp add: env_down_def)
  have a: "\<not> known_action ''whatever'' \<or>
       (startswith ''whatever'' ''page_'' \<and> length (py_split ''whatever'') < 4) \<or>
       (startswith ''whatever'' ''page_'' \<and> 4 \<le> length (py_split ''whatever'') \<and>
          (\<exists>n. py_int (last (py_split ''whatever'')) = Ret n) \<and>
          py_split ''whatever'' ! 1 \<noteq> ''anime'' \<and> py_split ''whatever'' ! 1 \<noteq> ''character'') \<or>
       (startswith ''whatever'' ''top_'' \<and> length (py_split ''whatever'') < 3)"
  proof -
    have "\<not> known_action ''whatever''" by code_simp
    then show ?thesis by blast
  qed
  have b: "\<not> known_action ''page_anime_x'' \<or>
       (startswith ''page_anime_x'' ''page_'' \<and> length (py_split ''page_anime_x'') < 4) \<or>
       (startswith ''page_anime_x'' ''page_'' \<and> 4 \<le> length (py_split ''page_anime_x'') \<and>
          (\<exists>n. py_int (last (py_split ''page_anime_x'')) = Ret n) \<and>
          py_split ''page_anime_x'' ! 1 \<noteq> ''anime'' \<and>
          py_split ''page_anime_x'' ! 1 \<noteq> ''character'') \<or>
       (startswith ''page_anime_x'' ''top_'' \<and> length (py_split ''page_anime_x'') < 3)"
  proof -
    have "startswith ''page_anime_x'' ''page_'' \<and> length (py_split ''page_anime_x'') < 4"
      by code_simp
    then show ?thesis by blast
  qed
  show ?thesis
    using ignored_data_runs_no_branch [OF a uid sent] ignored_data_runs_no_branch [OF b uid sent]
    by (simp add: st_of_def example_user_def env_down_def empty_db_def)
qed

text \<open>
  The claim as stated fails for malformed arguments of the other branches: the data
  \<open>fav_abc\<close>, pressed by a stranger, raises \<open>ValueError\<close> after the row of the user was
  written.
\<close>

theorem malformed_argument_counterexample:
  "fst (button_handler env_down example_user ''fav_abc'' (st_of empty_db [])) = Raise ValueError \<and>
   s_db (snd (button_handler env_down example_user ''fav_abc'' (st_of empty_db []))) \<noteq> empty_db"
  by code_simp
section \<open>Properties of the slug\<close>

lemma sub_runs_chars:
  "list_all Q s \<Longrightarrow> Q 45 \<Longrightarrow> list_all Q (sub_runs P b s)"
  by (induction P b s rule: sub_runs.induct) auto

lemma starts_with_hyphen_dropWhile: "\<not> starts_with_hyphen (dropWhile is_hyphen s)"
  by (induction s) auto

lemma has_double_hyphen_Cons:
  "has_double_hyphen (a # s) = ((is_hyphen a \<and> starts_with_hyphen s) \<or> has_double_hyphen s)"
  by (cases s) auto

lemma sub_runs_hyphen_no_double:
  "\<not> has_double_hyphen (sub_runs is_hyphen b s) \<and>
   (b \<longrightarrow> \<not> starts_with_hyphen (sub_runs is_hyphen b s))"
proof (induction is_hyphen b s rule: sub_runs.induct)
  case (1 in_run)
  show ?case by simp
next
  case (2 in_run c cs)
  show ?case
  proof (cases "is_hyphen c")
    case True
    with 2 show ?thesis
      by (cases in_run) (auto simp: has_double_hyphen_Cons is_hyphen_def)
  next
    case False
    with 2 show ?thesis
      by (auto simp: has_double_hyphen_Cons)
  qed
qed

lemma has_double_hyphen_suffix:
  "has_double_hyphen ys \<Longrightarrow> has_double_hyphen (xs @ ys)"
  by (induction xs) (auto simp: has_double_hyphen_Cons)

lemma has_double_hyphen_prefix:
  "has_double_hyphen xs \<Longrightarrow> has_double_hyphen (xs @ ys)"
  by (induction xs rule: has_double_hyphen.induct) auto

lemma dropWhile_no_double:
  assumes "\<not> has_double_hyphen s"
  shows "\<not> has_double_hyphen (dropWhile P s)"
proof
  assume a: "has_double_hyphen (dropWhile P s)"
  have "s = takeWhile P s @ dropWhile P s" by simp
  then have "has_double_hyphen s" using a has_double_hyphen_suffix by metis
  with assms show False by simp
qed

lemma rev_dropWhile_rev_prefix:
  "s = rev (dropWhile P (rev s)) @ rev (takeWhile P (rev s))"
proof -
  have "rev (takeWhile P (rev s) @ dropWhile P (rev s)) = rev (rev s)"
    by (simp only: takeWhile_dropWhile_id)
  then show ?thesis by (simp only: rev_append rev_rev_ident)
qed

lemma strip_hyphens_no_double:
  assumes "\<not> has_double_hyphen s"
  shows "\<not> has_double_hyphen (strip_hyphens s)"
proof
  let ?d = "dropWhile is_hyphen s"
  assume a: "has_double_hyphen (strip_hyphens s)"
  have "?d = strip_hyphens s @ rev (takeWhile is_hyphen (rev ?d))"
    unfolding strip_hyphens_def by (rule rev_dropWhile_rev_prefix)
  then have "has_double_hyphen ?d" using a has_double_hyphen_prefix by metis
  with dropWhile_no_double [OF assms] show False by simp
qed

lemma strip_hyphens_chars: "list_all Q s \<Longrightarrow> list_all Q (strip_hyphens s)"
proof -
  assume "list_all Q s"
  then have "\<forall>x \<in> set s. Q x" by (simp add: list_all_iff)
  moreover have "set (strip_hyphens s) \<subseteq> set s"
  proof
    fix x assume "x \<in> set (strip_hyphens s)"
    then have "x \<in> set (dropWhile is_hyphen (rev (dropWhile is_hyphen s)))"
      by (simp add: strip_hyphens_def)
    then have "x \<in> set (rev (dropWhile is_hyphen s))" by (rule set_dropWhileD)
    then have "x \<in> set (dropWhile is_hyphen s)" by simp
    then show "x \<in> set s" by (rule set_dropWhileD)
  qed
  ultimately show ?thesis by (auto simp: list_all_iff)
qed

lemma strip_hyphens_start: "\<not> starts_with_hyphen (strip_hyphens s)"
proof (cases "strip_hyphens s")
  case Nil
  then show ?thesis by simp
next
  case (Cons c cs)
  let ?d = "dropWhile is_hyphen s"
  have "?d = strip_hyphens s @ rev (takeWhile is_hyphen (rev ?d))"
    unfolding strip_hyphens_def by (rule rev_dropWhile_rev_prefix)
  with Cons have "?d = c # (cs @ rev (takeWhile is_hyphen (rev ?d)))" by simp
  then have "starts_with_hyphen ?d = is_hyphen c" by (metis starts_with_hyphen.simps(2))
  with starts_with_hyphen_dropWhile [of s] Cons show ?thesis by simp
qed

lemma strip_hyphens_end: "\<not> ends_with_hyphen (strip_hyphens s)"
  unfolding ends_with_hyphen_def strip_hyphens_def
  by (simp add: starts_with_hyphen_dropWhile)

text \<open>
  C10. For every title, whatever Python's lowering and white-space class are, the slug
  consists only of lowercase ASCII letters, digits and hyphens, neither begins nor ends with
  a hyphen, and contains no two consecutive hyphens.
\<close>

theorem create_slug_shape:
  "list_all is_slug_char (create_slug lower sp title) \<and>
   \<not> starts_with_hyphen (create_slug lower sp title) \<and>
   \<not> ends_with_hyphen (create_slug lower sp title) \<and>
   \<not> has_double_hyphen (create_slug lower sp title)"
proof -
  let ?f = "filter is_slug_char (re_sub_runs sp (lower title))"
  let ?c = "re_sub_runs is_hyphen ?f"
  have cs: "create_slug lower sp title = strip_hyphens ?c"
    by (simp add: create_slug_def)
  have "list_all is_slug_char ?f" by (simp add: list_all_iff)
  then have "list_all is_slug_char ?c"
    unfolding re_sub_runs_def by (rule sub_runs_chars) (simp add: is_slug_char_def)
  then have 1: "list_all is_slug_char (strip_hyphens ?c)" by (rule strip_hyphens_chars)
  have "\<not> has_double_hyphen ?c"
    unfolding re_sub_runs_def using sub_runs_hyphen_no_double by blast
  then have 2: "\<not> has_double_hyphen (strip_hyphens ?c)" by (rule strip_hyphens_no_double)
  show ?thesis
    unfolding cs using 1 2 strip_hyphens_start strip_hyphens_end by blast
qed

text \<open>The title \<open>" Re:Zero  -- 2nd "\<close> gives the slug \<open>"rezero-2nd"\<close>.\<close>

theorem create_slug_shape_witness:
  "create_slug ascii_lower ascii_space
     [32, 82, 101, 58, 90, 101, 114, 111, 32, 32, 45, 45, 32, 50, 110, 100, 32]
     = [114, 101, 122, 101, 114, 111, 45, 50, 110, 100] \<and>
   list_all is_slug_char (create_slug ascii_lower ascii_space
     [32, 82, 101, 58, 90, 101, 114, 111, 32, 32, 45, 45, 32, 50, 110, 100, 32]) \<and>
   \<not> starts_with_hyphen (create_slug ascii_lower ascii_space
     [32, 82, 101, 58, 90, 101, 114, 111, 32, 32, 45, 45, 32, 50, 110, 100, 32]) \<and>
   \<not> ends_with_hyphen (create_slug ascii_lower ascii_space
     [32, 82, 101, 58, 90, 101, 114, 111, 32, 32, 45, 45, 32, 50, 110, 100, 32]) \<and>
   \<not> has_double_hyphen (create_slug ascii_lower ascii_space
     [32, 82, 101, 58, 90, 101, 114, 111, 32, 32, 45, 45, 32, 50, 110, 100, 32])"
proof -
  have "create_slug ascii_lower ascii_space
     [32, 82, 101, 58, 90, 101, 114, 111, 32, 32, 45, 45, 32, 50, 110, 100, 32]
     = [114, 101, 122, 101, 114, 111, 45, 50, 110, 100]"
    by code_simp
  then show ?thesis
    using create_slug_shape [of ascii_lower ascii_space
      "[32, 82, 101, 58, 90, 101, 114, 111, 32, 32, 45, 45, 32, 50, 110, 100, 32]"]
    by simp
qed

end
